theory Spec2Isabelle
  imports Complex_Main "HOL-Library.Multiset" "HOL-Library.AList"
begin

section \<open>Data model\<close>

text \<open>
  The simulation keeps its whole state in package-level maps and counters. The model
  gathers them in one record that every operation takes and returns. Conventions:
  \<^item> Go \<open>int\<close> is modelled as \<open>int\<close>; slice indices and loop counters that are never
    negative are \<open>nat\<close>. No counter of the program comes near the 64-bit range.
  \<^item> A Go map that the code iterates over is an association list (the list order is the
    iteration order, which Go leaves unspecified, so theorems quantify over every
    order); a map that is only looked up is a partial function.
  \<^item> \<open>*TeamInfo\<close> pointers are shared between the \<open>teams\<close> map and the fixtures, so
    the \<open>TeamInfo\<close> objects live in an explicit store \<open>team_heap\<close> and a pointer is an
    address into it.
  \<^item> A pointer to a fixture is the pair of its league and its index in the league's slice.
  \<^item> \<open>time.Time\<close> is a number of nanoseconds, \<open>time.Duration\<close> likewise.
  \<^item> Record fields carry a one-letter prefix of their struct where two structs of the
    source use the same field name (\<open>tID\<close> for \<open>TeamInfo.ID\<close>, \<open>mStatus\<close> for
    \<open>Match.Status\<close>, \<open>sLeague\<close> for \<open>SeasonSchedule.League\<close>, ...).
  \<^item> Logging, commentary text, timestamps of last update and presentation fields (logo,
    weather, attendance, ...) are written but never read by the operations below and are
    left out.
\<close>

subsection \<open>Constants\<close>

abbreviation StatusLive :: string where "StatusLive \<equiv> ''LIVE''"
abbreviation StatusHalftime :: string where "StatusHalftime \<equiv> ''HALFTIME''"
abbreviation StatusFinished :: string where "StatusFinished \<equiv> ''FINISHED''"
abbreviation StatusBreak :: string where "StatusBreak \<equiv> ''BREAK''"

abbreviation LeaguePremier :: string where "LeaguePremier \<equiv> ''Premier League''"
abbreviation LeagueCommunityLeague :: string where "LeagueCommunityLeague \<equiv> ''Community League''"

definition TeamsPerLeague :: nat where "TeamsPerLeague = 10"
definition MatchesPerTeam :: int where "MatchesPerTeam = 18"
definition MaxSimultaneousMatches :: nat where "MaxSimultaneousMatches = 4"

subsection \<open>Structs\<close>

type_synonym team_ref = nat

record TeamInfo =
  tID :: int
  tName :: string
  tLeague :: string
  tForm :: "string list"
  tFormPoints :: int

record RoundMatch =
  Home :: team_ref
  Away :: team_ref

record SeasonSchedule =
  sMatchday :: int
  sLeague :: string
  sHomeTeam :: team_ref
  sAwayTeam :: team_ref
  sIsPlayed :: bool
  sMatchID :: int

record LeagueConfig =
  cName :: string
  cTeamCount :: nat
  cMatchdays :: int
  cStartTeamID :: int
  cEndTeamID :: int

type_synonym sched_ref = "string \<times> nat"

record Match =
  mID :: int
  mHomeTeam :: TeamInfo
  mAwayTeam :: TeamInfo
  mHomeScore :: int
  mAwayScore :: int
  mMinute :: int
  mStatus :: string
  mCompetition :: string
  mSeason :: int
  mMatchweekNum :: int
  mStartTime :: int
  mEndTime :: "int option"
  mInjuryTime :: int
  mHalftimeEndTime :: int
  mIsInBreak :: bool

record MatchStats =
  HomePossession :: int
  AwayPossession :: int
  HomeShots :: int
  AwayShots :: int
  HomeCorners :: int
  AwayCorners :: int
  HomeFouls :: int
  AwayFouls :: int
  HomeYellowCards :: int
  AwayYellowCards :: int
  HomeRedCards :: int
  AwayRedCards :: int
  HomePasses :: int
  AwayPasses :: int

record MatchMomentum =
  HomeTeamMomentum :: real
  AwayTeamMomentum :: real
  LastGoalTime :: int
  LastGoalTeam :: int
  LastRedCardTime :: int
  LastRedCardTeam :: int
  ConsecutiveGoals :: int

record PlayerAvailability =
  aPlayerID :: int
  aStatus :: string
  aUnavailableFrom :: int
  aReason :: string

record DynamicMatchProbabilities =
  dMatchID :: int
  HomeWinProbability :: real
  DrawProbability :: real
  AwayWinProbability :: real
  NextGoalProbability :: real
  HomeNextGoalProb :: real
  AwayNextGoalProb :: real
  Factors :: "string \<rightharpoonup> real"

record PlayerLocation =
  lX :: real
  lY :: real

record PlayerSeasonStats =
  MatchesPlayed :: int
  MinutesPlayed :: int
  GoalsThisSeason :: int
  AssistsThisSeason :: int
  YellowCardsThisSeason :: int
  RedCardsThisSeason :: int
  AverageRating :: real
  TotalRating :: real

record Player =
  pID :: int
  pName :: string
  pPosition :: string
  pTeamID :: int
  Goals :: int
  Assists :: int
  YellowCards :: int
  RedCards :: int
  Appearances :: int
  SeasonStats :: PlayerSeasonStats
  CurrentRating :: real

type_synonym player_ref = nat

record BallPosition =
  bX :: real
  bY :: real
  bPossessorID :: int
  bLastTouchID :: int
  bSpeed :: real
  bEventType :: string

record LeagueTable =
  Position :: int
  Team :: TeamInfo
  Played :: int
  Won :: int
  Drawn :: int
  Lost :: int
  GoalsFor :: int
  GoalsAgainst :: int
  GoalDiff :: int
  Points :: int
  Form :: "string list"

record SeasonHistory =
  hSeason :: int
  hTopScorer :: Player
  hTopAssists :: Player
  hMostFouls :: Player
  hPlayerOfSeason :: Player
  hChampion :: TeamInfo
  hTotalGoals :: int
  hTotalMatches :: int

record sim_state =
  teams :: "(int \<times> team_ref) list"
  team_heap :: "team_ref \<Rightarrow> TeamInfo"
  seasonSchedules :: "string \<rightharpoonup> SeasonSchedule list"
  matches :: "(int \<times> Match) list"
  matchCounter :: int
  currentSeason :: int
  currentMatchweek :: int
  matchStats :: "int \<rightharpoonup> MatchStats"
  playerLocations :: "int \<rightharpoonup> (int \<times> PlayerLocation) list"
  matchMomentum :: "int \<rightharpoonup> MatchMomentum"
  dynamicProbabilities :: "int \<rightharpoonup> DynamicMatchProbabilities"
  playerAvailability :: "int \<rightharpoonup> (int \<times> PlayerAvailability) list"
  players :: "(int \<times> player_ref) list"
  player_heap :: "player_ref \<Rightarrow> Player"
  ballPositions :: "int \<rightharpoonup> BallPosition"
  leagueTables :: "string \<rightharpoonup> LeagueTable list"
  seasonHistory :: "SeasonHistory list"
  finishedMatches :: "(int \<times> Match) list"

text \<open>The state before \<open>initializeSimulation\<close>: empty maps, the counters as the package
  initialises them. The objects of the two stores are the zero structs.\<close>

definition zeroTeam :: TeamInfo where
  "zeroTeam = \<lparr>tID = 0, tName = [], tLeague = [], tForm = [], tFormPoints = 0\<rparr>"

definition zeroPlayer :: Player where
  "zeroPlayer = \<lparr>pID = 0, pName = [], pPosition = [], pTeamID = 0, Goals = 0, Assists = 0,
                  YellowCards = 0, RedCards = 0, Appearances = 0,
                  SeasonStats = \<lparr>MatchesPlayed = 0, MinutesPlayed = 0, GoalsThisSeason = 0,
                                 AssistsThisSeason = 0, YellowCardsThisSeason = 0,
                                 RedCardsThisSeason = 0, AverageRating = 0, TotalRating = 0\<rparr>,
                  CurrentRating = 0\<rparr>"

definition emptyState :: sim_state where
  "emptyState = \<lparr>teams = [], team_heap = (\<lambda>a. zeroTeam), seasonSchedules = Map.empty,
                  matches = [], matchCounter = 0, currentSeason = 1, currentMatchweek = 1,
                  matchStats = Map.empty, playerLocations = Map.empty, matchMomentum = Map.empty,
                  dynamicProbabilities = Map.empty, playerAvailability = Map.empty,
                  players = [], player_heap = (\<lambda>a. zeroPlayer), ballPositions = Map.empty,
                  leagueTables = Map.empty, seasonHistory = [], finishedMatches = []\<rparr>"

section \<open>Fixture scheduler\<close>

text \<open>\<open>leagueConfigs\<close>; a league that is not in the map reads as the zero struct.\<close>

definition leagueConfigs :: "string \<Rightarrow> LeagueConfig" where
  "leagueConfigs league =
     (if league = LeaguePremier then
        \<lparr>cName = LeaguePremier, cTeamCount = TeamsPerLeague, cMatchdays = MatchesPerTeam,
         cStartTeamID = 1, cEndTeamID = 10\<rparr>
      else if league = LeagueCommunityLeague then
        \<lparr>cName = LeagueCommunityLeague, cTeamCount = TeamsPerLeague, cMatchdays = MatchesPerTeam,
         cStartTeamID = 11, cEndTeamID = 20\<rparr>
      else \<lparr>cName = [], cTeamCount = 0, cMatchdays = 0, cStartTeamID = 0, cEndTeamID = 0\<rparr>)"

definition getTeamsByLeague :: "sim_state \<Rightarrow> string \<Rightarrow> team_ref list" where
  "getTeamsByLeague st league =
     filter (\<lambda>team. tLeague (team_heap st team) = league) (map snd (teams st))"

text \<open>
  \<open>generateRoundMatches\<close>: one round of the rotation. The loop over \<open>i\<close> is a left fold
  over \<open>[0..<n div 2]\<close> whose accumulator is the slice \<open>matches\<close>. All index arithmetic
  is on non-negative numbers (\<open>i < n div 2 \<le> n - 1\<close>), so \<open>nat\<close> subtraction and \<open>mod\<close>
  agree with Go's.
\<close>

definition roundStep :: "team_ref list \<Rightarrow> nat \<Rightarrow> RoundMatch list \<Rightarrow> nat \<Rightarrow> RoundMatch list" where
  "roundStep teams0 roundNo matches0 i =
     (let n = length teams0;
          team1Idx = i;
          team2Idx0 = (n - 1 - i + roundNo) mod (n - 1);
          team2Idx = (if team2Idx0 \<ge> team1Idx then team2Idx0 + 1 else team2Idx0)
      in if team1Idx < length teams0 \<and> team2Idx < length teams0 \<and> team1Idx \<noteq> team2Idx
         then matches0 @ [\<lparr>Home = teams0 ! team1Idx, Away = teams0 ! team2Idx\<rparr>]
         else matches0)"

definition generateRoundMatches :: "team_ref list \<Rightarrow> nat \<Rightarrow> RoundMatch list" where
  "generateRoundMatches teams0 roundNo =
     (let n = length teams0
      in if n mod 2 \<noteq> 0 then []
         else foldl (roundStep teams0 roundNo) [] [0..<n div 2])"

text \<open>
  \<open>generateSeasonSchedule\<close>: the first leg and the return leg. Each outer loop is a fold
  over the rounds whose accumulator is the pair of the slice \<open>schedules\<close> and the
  counter \<open>matchday\<close>. \<open>totalRounds = len(leagueTeams) - 1\<close> is \<open>-1\<close> for an empty
  league, where the loops do not run; the truncated \<open>nat\<close> subtraction gives \<open>0\<close> and the
  same behaviour.
\<close>

definition firstLegRound ::
  "string \<Rightarrow> team_ref list \<Rightarrow> SeasonSchedule list \<times> int \<Rightarrow> nat \<Rightarrow> SeasonSchedule list \<times> int" where
  "firstLegRound league leagueTeams acc roundNo =
     (case acc of (schedules, matchday) \<Rightarrow>
        (schedules @ map (\<lambda>match. \<lparr>sMatchday = matchday, sLeague = league,
                                    sHomeTeam = Home match, sAwayTeam = Away match,
                                    sIsPlayed = False, sMatchID = 0\<rparr>)
                         (generateRoundMatches leagueTeams roundNo),
         matchday + 1))"

definition returnLegRound ::
  "string \<Rightarrow> team_ref list \<Rightarrow> SeasonSchedule list \<times> int \<Rightarrow> nat \<Rightarrow> SeasonSchedule list \<times> int" where
  "returnLegRound league leagueTeams acc roundNo =
     (case acc of (schedules, matchday) \<Rightarrow>
        (schedules @ map (\<lambda>match. \<lparr>sMatchday = matchday, sLeague = league,
                                    sHomeTeam = Away match, sAwayTeam = Home match,
                                    sIsPlayed = False, sMatchID = 0\<rparr>)
                         (generateRoundMatches leagueTeams roundNo),
         matchday + 1))"

definition generateSeasonSchedule :: "string \<Rightarrow> sim_state \<Rightarrow> sim_state" where
  "generateSeasonSchedule league st =
     (let config = leagueConfigs league;
          leagueTeams = getTeamsByLeague st league
      in if length leagueTeams \<noteq> cTeamCount config then st
         else
           (let totalRounds = length leagueTeams - 1;
                leg1 = foldl (firstLegRound league leagueTeams) ([], 1) [0..<totalRounds];
                leg2 = foldl (returnLegRound league leagueTeams) leg1 [0..<totalRounds]
            in st\<lparr>seasonSchedules := (seasonSchedules st)(league \<mapsto> fst leg2)\<rparr>))"

text \<open>The number of fixtures of a schedule in which a team takes part, and the number
  of fixtures between two given teams (in either direction).\<close>

definition fixturesOf :: "team_ref \<Rightarrow> SeasonSchedule list \<Rightarrow> nat" where
  "fixturesOf t schedules =
     length (filter (\<lambda>s. sHomeTeam s = t \<or> sAwayTeam s = t) schedules)"

definition fixturesBetween :: "team_ref \<Rightarrow> team_ref \<Rightarrow> SeasonSchedule list \<Rightarrow> nat" where
  "fixturesBetween a b schedules =
     length (filter (\<lambda>s. (sHomeTeam s = a \<and> sAwayTeam s = b) \<or>
                          (sHomeTeam s = b \<and> sAwayTeam s = a)) schedules)"

text \<open>The Premier League as \<open>initializeSimulation\<close> sets it up: ten teams with the
  IDs 1 to 10, the object of team \<open>k\<close> at address \<open>k\<close>.\<close>

definition premierTeam :: "team_ref \<Rightarrow> TeamInfo" where
  "premierTeam a = \<lparr>tID = int a, tName = ''Team'', tLeague = LeaguePremier,
                     tForm = [], tFormPoints = 0\<rparr>"

definition premierState :: sim_state where
  "premierState = emptyState\<lparr>teams := map (\<lambda>k. (int k, k)) [1..<11], team_heap := premierTeam\<rparr>"

text \<open>The fixtures stored for a league; a league without an entry reads as the empty
  slice.\<close>

definition scheduleOf :: "sim_state \<Rightarrow> string \<Rightarrow> SeasonSchedule list" where
  "scheduleOf st league = (case seasonSchedules st league of None \<Rightarrow> [] | Some schedules \<Rightarrow> schedules)"

definition premierSchedule :: "SeasonSchedule list" where
  "premierSchedule = scheduleOf (generateSeasonSchedule LeaguePremier premierState) LeaguePremier"

subsection \<open>Selecting the next fixture\<close>

text \<open>The two leagues in the order in which every loop of the scheduler visits them:
  the slice literal \<open>[]string{LeaguePremier, LeagueCommunityLeague}\<close>.\<close>

definition leagueOrder :: "string list" where
  "leagueOrder = [LeaguePremier, LeagueCommunityLeague]"

definition getTeamMatchesPlayed :: "sim_state \<Rightarrow> int \<Rightarrow> int" where
  "getTeamMatchesPlayed st teamID =
     foldl (\<lambda>matchesPlayed league.
              case seasonSchedules st league of
                None \<Rightarrow> matchesPlayed
              | Some schedules \<Rightarrow>
                  foldl (\<lambda>played schedule.
                           if sIsPlayed schedule \<and>
                              (tID (team_heap st (sHomeTeam schedule)) = teamID \<or>
                               tID (team_heap st (sAwayTeam schedule)) = teamID)
                           then played + 1 else played)
                        matchesPlayed schedules)
           0 leagueOrder"

definition getMaximumMatchesPlayed :: "sim_state \<Rightarrow> int" where
  "getMaximumMatchesPlayed st =
     foldl (\<lambda>maxMatches team.
              let matchesPlayed = getTeamMatchesPlayed st (tID (team_heap st team))
              in if matchesPlayed > maxMatches then matchesPlayed else maxMatches)
           0 (map snd (teams st))"

definition getMinimumMatchesPlayed :: "sim_state \<Rightarrow> int" where
  "getMinimumMatchesPlayed st =
     foldl (\<lambda>minMatches team.
              let matchesPlayed = getTeamMatchesPlayed st (tID (team_heap st team))
              in if matchesPlayed < minMatches then matchesPlayed else minMatches)
           999 (map snd (teams st))"

text \<open>The fixtures of a league, each with the pointer to it; \<open>schedAt\<close> follows such a
  pointer.\<close>

definition withRefs :: "string \<Rightarrow> SeasonSchedule list \<Rightarrow> (sched_ref \<times> SeasonSchedule) list" where
  "withRefs league schedules = map (\<lambda>i. ((league, i), schedules ! i)) [0..<length schedules]"

definition schedAt :: "sim_state \<Rightarrow> sched_ref \<Rightarrow> SeasonSchedule option" where
  "schedAt st ref =
     (case seasonSchedules st (fst ref) of
        None \<Rightarrow> None
      | Some schedules \<Rightarrow> if snd ref < length schedules then Some (schedules ! snd ref) else None)"

text \<open>A loop over the leagues that returns from the function at the first hit.\<close>

fun firstHit :: "('a \<Rightarrow> 'b option) \<Rightarrow> 'a list \<Rightarrow> 'b option" where
  "firstHit f [] = None"
| "firstHit f (x # xs) = (case f x of Some y \<Rightarrow> Some y | None \<Rightarrow> firstHit f xs)"

definition getMatchForLeastPlayedTeams :: "sim_state \<Rightarrow> (sched_ref \<times> SeasonSchedule) option" where
  "getMatchForLeastPlayedTeams st =
     (let minMatchesPlayed = getMinimumMatchesPlayed st
      in firstHit
           (\<lambda>league.
              case seasonSchedules st league of
                None \<Rightarrow> None
              | Some schedules \<Rightarrow>
                  find (\<lambda>(ref, schedule).
                          \<not> sIsPlayed schedule \<and>
                          (let homeMatchesPlayed =
                                 getTeamMatchesPlayed st (tID (team_heap st (sHomeTeam schedule)));
                               awayMatchesPlayed =
                                 getTeamMatchesPlayed st (tID (team_heap st (sAwayTeam schedule)))
                           in (homeMatchesPlayed = minMatchesPlayed \<or>
                               homeMatchesPlayed = minMatchesPlayed + 1) \<and>
                              (awayMatchesPlayed = minMatchesPlayed \<or>
                               awayMatchesPlayed = minMatchesPlayed + 1)))
                       (withRefs league schedules))
           leagueOrder)"

text \<open>
  \<open>getNextUnplayedMatch\<close>. The result is the pointer to the chosen fixture together
  with the fixture it points to, or \<open>None\<close> for \<open>nil\<close>. \<open>sort.Slice\<close> is not a stable
  sort, so the order in which it leaves fixtures of the same matchday is not fixed by the
  source; the sorting function is the parameter \<open>srt\<close>.
\<close>

type_synonym sorter = "(sched_ref \<times> SeasonSchedule) list \<Rightarrow> (sched_ref \<times> SeasonSchedule) list"

definition getNextUnplayedMatch :: "sorter \<Rightarrow> sim_state \<Rightarrow> (sched_ref \<times> SeasonSchedule) option" where
  "getNextUnplayedMatch srt st =
     (let minMatchesPlayed = getMinimumMatchesPlayed st;
          maxMatchesPlayed = getMaximumMatchesPlayed st
      in if maxMatchesPlayed - minMatchesPlayed > 2 then
           (case getMatchForLeastPlayedTeams st of
              Some match \<Rightarrow> Some match
            | None \<Rightarrow>
                firstHit
                  (\<lambda>league.
                     case seasonSchedules st league of
                       None \<Rightarrow> None
                     | Some schedules \<Rightarrow>
                         find (\<lambda>(ref, schedule). \<not> sIsPlayed schedule) (withRefs league schedules))
                  leagueOrder)
         else
           firstHit
             (\<lambda>league.
                case seasonSchedules st league of
                  None \<Rightarrow> None
                | Some schedules \<Rightarrow>
                    (let sortedSchedules =
                           srt (filter (\<lambda>(ref, schedule). \<not> sIsPlayed schedule)
                                       (withRefs league schedules))
                     in find (\<lambda>(ref, schedule).
                                getTeamMatchesPlayed st (tID (team_heap st (sHomeTeam schedule)))
                                  \<le> minMatchesPlayed + 2 \<and>
                                getTeamMatchesPlayed st (tID (team_heap st (sAwayTeam schedule)))
                                  \<le> minMatchesPlayed + 2)
                             sortedSchedules))
             leagueOrder)"

subsection \<open>Pre-match probabilities\<close>

text \<open>\<open>float64\<close> arithmetic is modelled by the arithmetic of the real numbers.\<close>

definition calculateTeamStrength :: "TeamInfo \<Rightarrow> real" where
  "calculateTeamStrength team =
     (let baseStrength = 0.4;
          formStrength = real_of_int (tFormPoints team) / 15.0 * 0.3;
          strength = baseStrength + formStrength
      in if strength < 0.4 then 0.4 else if strength > 0.7 then 0.7 else strength)"

definition calculateMatchProbabilities :: "TeamInfo \<Rightarrow> TeamInfo \<Rightarrow> real \<times> real \<times> real" where
  "calculateMatchProbabilities homeTeam awayTeam =
     (let homeStrength = calculateTeamStrength homeTeam * 1.1;
          awayStrength = calculateTeamStrength awayTeam;
          totalStrength = homeStrength + awayStrength;
          homeWin = homeStrength / totalStrength;
          awayWin = awayStrength / totalStrength;
          draw = 0.3 * (1.0 - \<bar>homeWin - awayWin\<bar>);
          total = homeWin + draw + awayWin
      in (homeWin / total, draw / total, awayWin / total))"

subsection \<open>Creating the next match\<close>

definition leagueActiveCount :: "sim_state \<Rightarrow> string \<Rightarrow> nat" where
  "leagueActiveCount st league =
     length (filter (\<lambda>match. (mStatus match = StatusLive \<or> mStatus match = StatusHalftime \<or>
                               mStatus match = StatusBreak) \<and>
                              mCompetition match = league)
                    (map snd (matches st)))"

definition generateInitialMatchStats :: MatchStats where
  "generateInitialMatchStats =
     \<lparr>HomePossession = 50, AwayPossession = 50, HomeShots = 0, AwayShots = 0,
      HomeCorners = 0, AwayCorners = 0, HomeFouls = 0, AwayFouls = 0,
      HomeYellowCards = 0, AwayYellowCards = 0, HomeRedCards = 0, AwayRedCards = 0,
      HomePasses = 0, AwayPasses = 0\<rparr>"

definition markPlayed :: "sched_ref \<Rightarrow> int \<Rightarrow> sim_state \<Rightarrow> sim_state" where
  "markPlayed ref matchID st =
     (case seasonSchedules st (fst ref) of
        None \<Rightarrow> st
      | Some schedules \<Rightarrow>
          st\<lparr>seasonSchedules := (seasonSchedules st)
                (fst ref \<mapsto> schedules[snd ref := (schedules ! snd ref)
                                           \<lparr>sIsPlayed := True, sMatchID := matchID\<rparr>])\<rparr>)"

text \<open>
  \<open>createNextMatch\<close>. \<open>injuryTime\<close> is the value drawn by \<open>rand.Intn(7)\<close> and \<open>now\<close>
  the reading of the clock. The two writes to the fixture (\<open>IsPlayed = true\<close> and
  \<open>MatchID = matchCounter\<close>) go through the pointer; \<open>markPlayed\<close> does both.
\<close>

definition createNextMatch :: "sorter \<Rightarrow> int \<Rightarrow> int \<Rightarrow> sim_state \<Rightarrow> sim_state" where
  "createNextMatch srt injuryTime now st =
     (case getNextUnplayedMatch srt st of
        None \<Rightarrow> st
      | Some (ref, scheduledMatch) \<Rightarrow>
          if sIsPlayed scheduledMatch then st
          else if leagueActiveCount st (sLeague scheduledMatch) \<ge> MaxSimultaneousMatches then st
          else
            (let counter = matchCounter st + 1;
                 homeTeam = team_heap st (sHomeTeam scheduledMatch);
                 awayTeam = team_heap st (sAwayTeam scheduledMatch);
                 probs = calculateMatchProbabilities homeTeam awayTeam;
                 match = \<lparr>mID = counter, mHomeTeam = homeTeam, mAwayTeam = awayTeam,
                          mHomeScore = 0, mAwayScore = 0, mMinute = 0, mStatus = StatusLive,
                          mCompetition = sLeague scheduledMatch, mSeason = currentSeason st,
                          mMatchweekNum = sMatchday scheduledMatch, mStartTime = now,
                          mEndTime = None, mInjuryTime = injuryTime, mHalftimeEndTime = 0,
                          mIsInBreak = False\<rparr>;
                 st1 = markPlayed ref counter st
             in st1\<lparr>matchCounter := counter,
                    matches := AList.update counter match (matches st1),
                    matchStats := (matchStats st1)(counter \<mapsto> generateInitialMatchStats),
                    playerLocations := (playerLocations st1)(counter \<mapsto> []),
                    matchMomentum := (matchMomentum st1)(counter \<mapsto>
                       \<lparr>HomeTeamMomentum = 0.0, AwayTeamMomentum = 0.0, LastGoalTime = 0,
                        LastGoalTeam = 0, LastRedCardTime = 0, LastRedCardTeam = 0,
                        ConsecutiveGoals = 0\<rparr>),
                    dynamicProbabilities := (dynamicProbabilities st1)(counter \<mapsto>
                       \<lparr>dMatchID = counter, HomeWinProbability = fst probs,
                        DrawProbability = fst (snd probs), AwayWinProbability = snd (snd probs),
                        NextGoalProbability = 0.02, HomeNextGoalProb = 0.01,
                        AwayNextGoalProb = 0.01, Factors = Map.empty\<rparr>),
                    playerAvailability := (playerAvailability st1)(counter \<mapsto> [])\<rparr>))"

section \<open>Match lifecycle\<close>

text \<open>
  Time is counted in nanoseconds. \<open>now.Sub(match.StartTime).Seconds()\<close> is a
  \<open>float64\<close> whose integer part \<open>int(elapsed)\<close> is the number of whole seconds of the
  duration; for the durations of a match (a few minutes) the conversion is exact enough
  that \<open>int(elapsed)\<close> is the quotient by \<open>10^9\<close>, truncated towards zero, and
  \<open>elapsed >= float64(totalMatchTime)\<close> holds exactly when the duration is at least
  \<open>totalMatchTime\<close> seconds.
\<close>

definition second :: int where "second = 1000000000"
definition MatchDurationSeconds :: int where "MatchDurationSeconds = 90"
definition HalftimeBreakSeconds :: int where "HalftimeBreakSeconds = 15"

definition wholeSeconds :: "int \<Rightarrow> int" where
  "wholeSeconds d = (if d \<ge> 0 then d div second else - ((- d) div second))"

definition finishMatch :: "int \<Rightarrow> Match \<Rightarrow> Match" where
  "finishMatch now match = match\<lparr>mStatus := StatusFinished, mEndTime := Some now\<rparr>"

text \<open>
  \<open>updateLiveMatchWithBreaks\<close>, as far as it writes the \<open>Match\<close> object; \<open>now\<close> is
  the reading of the clock at the start of the call. The calls that follow in the LIVE
  case (\<open>generateMatchEvent\<close>, \<open>updatePlayerLocationsForMatch\<close>,
  \<open>updateMatchStatistics\<close>) write the two scores, the players, the ball, the positions
  and the statistics, and none of \<open>Minute\<close>, \<open>Status\<close>, \<open>StartTime\<close>,
  \<open>HalftimeEndTime\<close>, \<open>IsInBreak\<close>, \<open>InjuryTime\<close>: these six fields are assigned only
  here, in \<open>finishMatch\<close> and in \<open>createNextMatch\<close>.
\<close>

definition updateLiveMatchWithBreaks :: "int \<Rightarrow> Match \<Rightarrow> Match" where
  "updateLiveMatchWithBreaks now match =
     (let elapsed = now - mStartTime match
      in if mStatus match = StatusLive then
           (let match1 = match\<lparr>mMinute := wholeSeconds elapsed\<rparr>
            in if mMinute match1 \<ge> 45 \<and> mMinute match1 < 46 then
                 match1\<lparr>mStatus := StatusHalftime,
                        mHalftimeEndTime := now + HalftimeBreakSeconds * second,
                        mIsInBreak := True\<rparr>
               else if elapsed \<ge> (MatchDurationSeconds + mInjuryTime match1) * second then
                 finishMatch now match1
               else match1)
         else if mStatus match = StatusHalftime then
           (if now > mHalftimeEndTime match then
              (let breakDuration = now - (mHalftimeEndTime match - HalftimeBreakSeconds * second)
               in match\<lparr>mStatus := StatusLive, mIsInBreak := False,
                        mStartTime := mStartTime match + breakDuration\<rparr>)
            else match)
         else match)"

text \<open>One tick of \<open>matchEngine\<close> for one match: the update is called for the matches
  that are LIVE, HALFTIME or BREAK.\<close>

definition engineTick :: "Match \<Rightarrow> int \<Rightarrow> Match" where
  "engineTick match now =
     (if mStatus match = StatusLive \<or> mStatus match = StatusHalftime \<or> mStatus match = StatusBreak
      then updateLiveMatchWithBreaks now match else match)"

text \<open>The match after each tick of a sequence of ticks, given by their clock readings.\<close>

fun runTicks :: "Match \<Rightarrow> int list \<Rightarrow> Match list" where
  "runTicks match [] = []"
| "runTicks match (now # ticks) = engineTick match now # runTicks (engineTick match now) ticks"

text \<open>The match object that \<open>createNextMatch\<close> builds at time \<open>now\<close> for a first
  Premier League fixture of team 1 against team 2, with the injury time drawn for it.\<close>

definition kickoff :: "int \<Rightarrow> int \<Rightarrow> Match" where
  "kickoff now injuryTime =
     \<lparr>mID = 1, mHomeTeam = \<lparr>tID = 1, tName = ''Home'', tLeague = LeaguePremier, tForm = [], tFormPoints = 0\<rparr>,
      mAwayTeam = \<lparr>tID = 2, tName = ''Away'', tLeague = LeaguePremier, tForm = [], tFormPoints = 0\<rparr>,
      mHomeScore = 0, mAwayScore = 0, mMinute = 0, mStatus = StatusLive,
      mCompetition = LeaguePremier, mSeason = 1, mMatchweekNum = 1, mStartTime = now,
      mEndTime = None, mInjuryTime = injuryTime, mHalftimeEndTime = 0, mIsInBreak = False\<rparr>"

text \<open>A clock reading given in milliseconds, as the nanoseconds of the model.\<close>

definition ms :: "int \<Rightarrow> int" where
  "ms k = k * 1000000"

section \<open>Momentum and probabilities\<close>

text \<open>
  \<open>float64\<close> values are modelled by real numbers and the operations on them by the
  exact operations. \<open>math.Max\<close> and \<open>math.Min\<close> are \<open>max\<close> and \<open>min\<close>.
\<close>

abbreviation PlayerAvailable :: string where "PlayerAvailable \<equiv> ''available''"
abbreviation PlayerRedCard :: string where "PlayerRedCard \<equiv> ''red_card''"

definition zeroMomentum :: MatchMomentum where
  "zeroMomentum = \<lparr>HomeTeamMomentum = 0.0, AwayTeamMomentum = 0.0, LastGoalTime = 0,
                    LastGoalTeam = 0, LastRedCardTime = 0, LastRedCardTeam = 0,
                    ConsecutiveGoals = 0\<rparr>"

text \<open>
  \<open>updateMatchMomentum\<close>. The entry of the match is created when it is missing, the
  \<open>switch\<close> on the event type adjusts it (an event type without a case adjusts
  nothing), and both scalars are clamped. \<open>adjustMomentum\<close> is the \<open>switch\<close> statement
  and \<open>clampMomentum\<close> the two clamping assignments after it.
\<close>

definition adjustMomentum :: "Match \<Rightarrow> string \<Rightarrow> int \<Rightarrow> MatchMomentum \<Rightarrow> MatchMomentum" where
  "adjustMomentum match eventType affectedTeamID momentum =
     (let isHomeTeam = (affectedTeamID = tID (mHomeTeam match))
      in if eventType = ''goal'' then
           (if isHomeTeam
            then momentum\<lparr>HomeTeamMomentum := HomeTeamMomentum momentum + 0.3,
                          AwayTeamMomentum := AwayTeamMomentum momentum - 0.2\<rparr>
            else momentum\<lparr>AwayTeamMomentum := AwayTeamMomentum momentum + 0.3,
                          HomeTeamMomentum := HomeTeamMomentum momentum - 0.2\<rparr>)
           \<lparr>LastGoalTime := mMinute match, LastGoalTeam := affectedTeamID,
            ConsecutiveGoals := ConsecutiveGoals momentum + 1\<rparr>
         else if eventType = ''red_card'' then
           (if isHomeTeam
            then momentum\<lparr>HomeTeamMomentum := HomeTeamMomentum momentum - 0.4,
                          AwayTeamMomentum := AwayTeamMomentum momentum + 0.2\<rparr>
            else momentum\<lparr>AwayTeamMomentum := AwayTeamMomentum momentum - 0.4,
                          HomeTeamMomentum := HomeTeamMomentum momentum + 0.2\<rparr>)
           \<lparr>LastRedCardTime := mMinute match, LastRedCardTeam := affectedTeamID\<rparr>
         else if eventType = ''corner'' then
           (let adjustment = 0.1
            in if isHomeTeam
               then momentum\<lparr>HomeTeamMomentum := HomeTeamMomentum momentum + adjustment\<rparr>
               else momentum\<lparr>AwayTeamMomentum := AwayTeamMomentum momentum + adjustment\<rparr>)
         else if eventType = ''foul'' then
           (let adjustment = 0.05
            in if isHomeTeam
               then momentum\<lparr>HomeTeamMomentum := HomeTeamMomentum momentum - adjustment\<rparr>
               else momentum\<lparr>AwayTeamMomentum := AwayTeamMomentum momentum - adjustment\<rparr>)
         else momentum)"

definition clampMomentum :: "MatchMomentum \<Rightarrow> MatchMomentum" where
  "clampMomentum momentum =
     momentum\<lparr>HomeTeamMomentum := max (- 1.0) (min 1.0 (HomeTeamMomentum momentum)),
              AwayTeamMomentum := max (- 1.0) (min 1.0 (AwayTeamMomentum momentum))\<rparr>"

definition updateMatchMomentum :: "int \<Rightarrow> Match \<Rightarrow> string \<Rightarrow> int \<Rightarrow> sim_state \<Rightarrow> sim_state" where
  "updateMatchMomentum matchID match eventType affectedTeamID st =
     (let momentum = (case matchMomentum st matchID of None \<Rightarrow> zeroMomentum | Some m \<Rightarrow> m)
      in st\<lparr>matchMomentum := (matchMomentum st)
              (matchID \<mapsto> clampMomentum (adjustMomentum match eventType affectedTeamID momentum))\<rparr>)"

definition getPlayerByID :: "sim_state \<Rightarrow> int \<Rightarrow> player_ref option" where
  "getPlayerByID st playerID = map_of (players st) playerID"

definition getRedCardCount :: "sim_state \<Rightarrow> int \<Rightarrow> int \<Rightarrow> int" where
  "getRedCardCount st matchID teamID =
     (case playerAvailability st matchID of
        None \<Rightarrow> 0
      | Some avail \<Rightarrow>
          foldl (\<lambda>count (playerID, availability).
                   if aStatus availability = PlayerRedCard then
                     (case getPlayerByID st playerID of
                        None \<Rightarrow> count
                      | Some player \<Rightarrow>
                          if pTeamID (player_heap st player) = teamID then count + 1 else count)
                   else count)
                0 avail)"

definition calculateAttackStrength :: "TeamInfo \<Rightarrow> real" where
  "calculateAttackStrength team =
     (let baseStrength = 0.4;
          formStrength = real_of_int (tFormPoints team) / 15.0 * 0.3;
          strength = baseStrength + formStrength
      in if strength < 0.4 then 0.4 else if strength > 0.7 then 0.7 else strength)"

definition calculateNextGoalProbability ::
  "sim_state \<Rightarrow> Match \<Rightarrow> bool \<Rightarrow> MatchMomentum option \<Rightarrow> real" where
  "calculateNextGoalProbability st match isHome momentum =
     (let team = (if isHome then mHomeTeam match else mAwayTeam match);
          attackStrength = calculateAttackStrength team;
          baseProb = 0.02 * (attackStrength * 2.0);
          baseProb1 = (case momentum of
                         None \<Rightarrow> baseProb
                       | Some m \<Rightarrow>
                           if isHome then baseProb * (1.0 + HomeTeamMomentum m * 0.5)
                           else baseProb * (1.0 + AwayTeamMomentum m * 0.5));
          playerCount = 11 - getRedCardCount st (mID match) (tID team);
          baseProb2 = (if playerCount < 11 then baseProb1 * (real_of_int playerCount / 11.0)
                       else baseProb1)
      in max 0.001 (min 0.1 baseProb2))"

text \<open>
  \<open>recalculateMatchProbabilities\<close>. A missing entry is created with the match ID and
  an empty factor map, its other fields zero. The function is modelled in three parts:
  \<open>probabilityFactors\<close> is the block that computes the four contributing factors
  (score, player numbers, momentum, time multiplier), \<open>adjustedProbabilities\<close> is the
  block that clamps the adjusted win probabilities, derives the draw probability and
  normalises the three, and \<open>recalculateMatchProbabilities\<close> stores the results.
\<close>

definition probabilityFactors ::
  "sim_state \<Rightarrow> int \<Rightarrow> Match \<Rightarrow> real \<times> real \<times> real \<times> real" where
  "probabilityFactors st matchID match =
     (let momentum = matchMomentum st matchID;
          scoreDiff = mHomeScore match - mAwayScore match;
          scoreAdjustment = real_of_int scoreDiff * 0.1;
          homePlayerCount = 11 - getRedCardCount st matchID (tID (mHomeTeam match));
          awayPlayerCount = 11 - getRedCardCount st matchID (tID (mAwayTeam match));
          playerDiff = real_of_int (homePlayerCount - awayPlayerCount) * 0.15;
          momentumAdjustment = (case momentum of
                                  None \<Rightarrow> 0.0
                                | Some m \<Rightarrow> (HomeTeamMomentum m - AwayTeamMomentum m) * 0.2);
          timeRemaining = 90 - mMinute match;
          timeMultiplier = (if timeRemaining < 15 then 0.5 + real_of_int timeRemaining / 30.0
                            else 1.0)
      in (scoreAdjustment, playerDiff, momentumAdjustment, timeMultiplier))"

definition adjustedProbabilities :: "real \<Rightarrow> real \<Rightarrow> real \<Rightarrow> real \<times> real \<times> real" where
  "adjustedProbabilities baseHomeWin baseAwayWin totalAdjustment =
     (let homeWin = max 0.05 (min 0.9 (baseHomeWin + totalAdjustment));
          awayWin = max 0.05 (min 0.9 (baseAwayWin - totalAdjustment));
          draw = max 0.05 (1.0 - homeWin - awayWin);
          total = homeWin + draw + awayWin
      in (homeWin / total, draw / total, awayWin / total))"

definition recalculateMatchProbabilities :: "int \<Rightarrow> Match \<Rightarrow> sim_state \<Rightarrow> sim_state" where
  "recalculateMatchProbabilities matchID match st =
     (let probs = (case dynamicProbabilities st matchID of
                     None \<Rightarrow> \<lparr>dMatchID = matchID, HomeWinProbability = 0, DrawProbability = 0,
                               AwayWinProbability = 0, NextGoalProbability = 0,
                               HomeNextGoalProb = 0, AwayNextGoalProb = 0, Factors = Map.empty\<rparr>
                   | Some p \<Rightarrow> p);
          momentum = matchMomentum st matchID;
          base = calculateMatchProbabilities (mHomeTeam match) (mAwayTeam match);
          baseHomeWin = fst base;
          baseAwayWin = snd (snd base)
      in case probabilityFactors st matchID match of
           (scoreAdjustment, playerDiff, momentumAdjustment, timeMultiplier) \<Rightarrow>
         (let totalAdjustment = (scoreAdjustment + playerDiff + momentumAdjustment) * timeMultiplier
          in case adjustedProbabilities baseHomeWin baseAwayWin totalAdjustment of
               (homeWin, draw, awayWin) \<Rightarrow>
             (let homeNext = calculateNextGoalProbability st match True momentum;
                  awayNext = calculateNextGoalProbability st match False momentum;
                  probs1 = probs\<lparr>HomeWinProbability := homeWin,
                                DrawProbability := draw,
                                AwayWinProbability := awayWin,
                                HomeNextGoalProb := homeNext,
                                AwayNextGoalProb := awayNext,
                                NextGoalProbability := homeNext + awayNext,
                                Factors := (Factors probs)(''score_diff'' \<mapsto> scoreAdjustment,
                                                           ''player_diff'' \<mapsto> playerDiff,
                                                           ''momentum'' \<mapsto> momentumAdjustment,
                                                           ''time_multiplier'' \<mapsto> timeMultiplier)\<rparr>
              in st\<lparr>dynamicProbabilities := (dynamicProbabilities st)(matchID \<mapsto> probs1)\<rparr>)))"

section \<open>Match events\<close>

text \<open>
  The event handlers receive the ID of the match and the pointer to its \<open>Match\<close>
  object. \<open>generateMatchEvent\<close> calls them with \<open>match.ID\<close> and \<open>match\<close> for a match
  that \<open>matchEngine\<close> took from the \<open>matches\<close> map, so the pointer is the object stored
  under the match ID. The model stores match values: the argument is the stored object
  exactly when the map holds it under the match ID, and a write through the pointer then
  changes the stored value as well as the value that the handler hands back
  (\<open>storeMatch\<close>).

  A run-time panic is the error value of a sum type. Nothing in the program recovers
  from a panic, so the error value stands for the end of the run. The constructors name
  the cause: the dereference of a \<open>nil\<close> pointer, a slice expression beyond the slice,
  and the assignment to an entry of a \<open>nil\<close> map.
\<close>

datatype error = NilDereference | SliceBounds | NilMapAssignment

definition storeMatch :: "int \<Rightarrow> Match \<Rightarrow> Match \<Rightarrow> sim_state \<Rightarrow> sim_state" where
  "storeMatch matchID match match1 st =
     (if map_of (matches st) matchID = Some match
      then st\<lparr>matches := AList.update matchID match1 (matches st)\<rparr>
      else st)"

abbreviation PosGK :: string where "PosGK \<equiv> ''GK''"
abbreviation PosCB :: string where "PosCB \<equiv> ''CB''"
abbreviation PosLB :: string where "PosLB \<equiv> ''LB''"
abbreviation PosRB :: string where "PosRB \<equiv> ''RB''"
abbreviation PosCDM :: string where "PosCDM \<equiv> ''CDM''"
abbreviation PosCM :: string where "PosCM \<equiv> ''CM''"
abbreviation PosCAM :: string where "PosCAM \<equiv> ''CAM''"
abbreviation PosLW :: string where "PosLW \<equiv> ''LW''"
abbreviation PosRW :: string where "PosRW \<equiv> ''RW''"
abbreviation PosST :: string where "PosST \<equiv> ''ST''"

abbreviation BallEventPlay :: string where "BallEventPlay \<equiv> ''PLAY''"
abbreviation BallEventKickoff :: string where "BallEventKickoff \<equiv> ''KICKOFF''"
abbreviation BallEventFreekick :: string where "BallEventFreekick \<equiv> ''FREEKICK''"
abbreviation BallEventCorner :: string where "BallEventCorner \<equiv> ''CORNER''"
abbreviation BallEventThrowIn :: string where "BallEventThrowIn \<equiv> ''THROW_IN''"
abbreviation BallEventPenalty :: string where "BallEventPenalty \<equiv> ''PENALTY''"
abbreviation BallEventGoalkick :: string where "BallEventGoalkick \<equiv> ''GOAL_KICK''"

definition FieldWidth :: real where "FieldWidth = 100.0"
definition FieldHeight :: real where "FieldHeight = 64.0"

subsection \<open>Player availability\<close>

definition getPlayersFromTeam :: "sim_state \<Rightarrow> int \<Rightarrow> player_ref list" where
  "getPlayersFromTeam st teamID =
     filter (\<lambda>player. pTeamID (player_heap st player) = teamID) (map snd (players st))"

definition isPlayerAvailable :: "sim_state \<Rightarrow> int \<Rightarrow> int \<Rightarrow> bool" where
  "isPlayerAvailable st matchID playerID =
     (case playerAvailability st matchID of
        None \<Rightarrow> True
      | Some avail \<Rightarrow>
          (case map_of avail playerID of
             None \<Rightarrow> True
           | Some availability \<Rightarrow> aStatus availability = PlayerAvailable))"

definition getAvailablePlayersForMatch :: "sim_state \<Rightarrow> int \<Rightarrow> player_ref list" where
  "getAvailablePlayersForMatch st matchID =
     (case map_of (matches st) matchID of
        None \<Rightarrow> []
      | Some match \<Rightarrow>
          (let homePlayers = getPlayersFromTeam st (tID (mHomeTeam match));
               awayPlayers = getPlayersFromTeam st (tID (mAwayTeam match));
               allPlayers = homePlayers @ awayPlayers
           in filter (\<lambda>player. isPlayerAvailable st matchID (pID (player_heap st player)))
                     allPlayers))"

definition setPlayerUnavailable ::
  "int \<Rightarrow> int \<Rightarrow> string \<Rightarrow> int \<Rightarrow> string \<Rightarrow> sim_state \<Rightarrow> sim_state" where
  "setPlayerUnavailable matchID playerID status minute reason st =
     (let avail = (case playerAvailability st matchID of None \<Rightarrow> [] | Some a \<Rightarrow> a)
      in st\<lparr>playerAvailability := (playerAvailability st)
              (matchID \<mapsto> AList.update playerID
                 \<lparr>aPlayerID = playerID, aStatus = status, aUnavailableFrom = minute,
                  aReason = reason\<rparr> avail)\<rparr>)"

text \<open>The entries that the availability endpoint lists as unavailable players.\<close>

definition unavailablePlayers :: "sim_state \<Rightarrow> int \<Rightarrow> PlayerAvailability list" where
  "unavailablePlayers st matchID =
     (case playerAvailability st matchID of
        None \<Rightarrow> []
      | Some avail \<Rightarrow>
          filter (\<lambda>a. aStatus a \<noteq> PlayerAvailable \<and> getPlayerByID st (aPlayerID a) \<noteq> None)
                 (map snd avail))"

subsection \<open>Ball events\<close>

text \<open>
  \<open>getPlayersFromTeam(teamID)[:11]\<close>, the expression with which every repositioning
  function takes the first eleven players of a team. With eleven players or more it is
  the first eleven. With fewer the run ends in a panic: the slice expression is out of
  range when the capacity of the slice is below eleven, and when \<open>append\<close> has left a
  capacity of eleven or more the expression yields \<open>nil\<close> pointers behind the players,
  which the loop over the slice dereferences (all formation tables have eleven rows).
  The model has one error value for both.
\<close>

definition firstEleven :: "sim_state \<Rightarrow> int \<Rightarrow> error + player_ref list" where
  "firstEleven st teamID =
     (let teamPlayers = getPlayersFromTeam st teamID
      in if length teamPlayers < 11 then Inl SliceBounds else Inr (take 11 teamPlayers))"

text \<open>
  \<open>repositionPlayersForEvent\<close>. Without a stored match, and for an event type that the
  \<open>switch\<close> does not list, nothing happens. Each of the six repositioning functions
  takes the first eleven of both teams of the stored match and assigns a new entry of
  \<open>playerLocations[matchID]\<close> for each of these players, which panics when the match
  has no location map. When several causes of a panic are present the model reports the
  home roster first, then the away roster, then the map; the source meets them in an
  order that depends on the event type, and the run ends in each case.

  Which coordinates the players get (formation tables, set-piece geometry, random
  scatter) is not modelled: the location list of the match after the repositioning is
  the value of the parameter \<open>repos\<close>.
\<close>

type_synonym repositioner =
  "int \<Rightarrow> string \<Rightarrow> real \<Rightarrow> real \<Rightarrow> sim_state \<Rightarrow> (int \<times> PlayerLocation) list"

definition repositionedEvents :: "string list" where
  "repositionedEvents = [BallEventKickoff, BallEventCorner, BallEventFreekick,
                         BallEventThrowIn, BallEventPenalty, BallEventGoalkick]"

definition repositionPlayersForEvent ::
  "repositioner \<Rightarrow> int \<Rightarrow> string \<Rightarrow> real \<Rightarrow> real \<Rightarrow> sim_state \<Rightarrow> error + sim_state" where
  "repositionPlayersForEvent repos matchID eventType ballX ballY st =
     (case map_of (matches st) matchID of
        None \<Rightarrow> Inr st
      | Some match \<Rightarrow>
          if eventType \<in> set repositionedEvents then
            (case firstEleven st (tID (mHomeTeam match)) of
               Inl e \<Rightarrow> Inl e
             | Inr homePlayers \<Rightarrow>
                 (case firstEleven st (tID (mAwayTeam match)) of
                    Inl e \<Rightarrow> Inl e
                  | Inr awayPlayers \<Rightarrow>
                      (case playerLocations st matchID of
                         None \<Rightarrow> Inl NilMapAssignment
                       | Some locations \<Rightarrow>
                           Inr (st\<lparr>playerLocations := (playerLocations st)
                                      (matchID \<mapsto> repos matchID eventType ballX ballY st)\<rparr>))))
          else Inr st)"

text \<open>\<open>setBallEvent\<close> puts the ball down for a set piece and repositions the
  players.\<close>

definition setBallEvent ::
  "repositioner \<Rightarrow> int \<Rightarrow> string \<Rightarrow> real \<Rightarrow> real \<Rightarrow> int \<Rightarrow> sim_state \<Rightarrow> error + sim_state" where
  "setBallEvent repos matchID eventType x y possessorID st =
     (case ballPositions st matchID of
        None \<Rightarrow> Inr st
      | Some ball \<Rightarrow>
          repositionPlayersForEvent repos matchID eventType x y
            (st\<lparr>ballPositions := (ballPositions st)
                   (matchID \<mapsto> ball\<lparr>bX := x, bY := y, bPossessorID := possessorID,
                                      bEventType := eventType, bSpeed := 0\<rparr>)\<rparr>))"

subsection \<open>Goals\<close>

definition nearestStep ::
  "sim_state \<Rightarrow> int \<Rightarrow> BallPosition \<Rightarrow> player_ref option \<times> real option \<Rightarrow>
   int \<times> PlayerLocation \<Rightarrow> player_ref option \<times> real option" where
  "nearestStep st attackingTeamID ball acc entry =
     (case acc of (nearestPlayer, minDistance) \<Rightarrow>
      case entry of (playerID, location) \<Rightarrow>
        (case map_of (players st) playerID of
           None \<Rightarrow> acc
         | Some player \<Rightarrow>
             if pTeamID (player_heap st player) = attackingTeamID \<and>
                (pPosition (player_heap st player) = PosST \<or>
                 pPosition (player_heap st player) = PosCAM \<or>
                 pPosition (player_heap st player) = PosLW \<or>
                 pPosition (player_heap st player) = PosRW)
             then
               (let distance = sqrt ((lX location - bX ball)\<^sup>2 + (lY location - bY ball)\<^sup>2)
                in if (case minDistance of None \<Rightarrow> True | Some d \<Rightarrow> distance < d) \<and>
                      distance < 15
                   then (Some player, Some distance) else acc)
             else acc))"

text \<open>\<open>findNearestAttackingPlayer\<close>; \<open>minDistance\<close> starts at \<open>+Inf\<close>, here \<open>None\<close>.\<close>

definition findNearestAttackingPlayer :: "sim_state \<Rightarrow> int \<Rightarrow> BallPosition \<Rightarrow> player_ref option" where
  "findNearestAttackingPlayer st matchID ball =
     (case map_of (matches st) matchID of
        None \<Rightarrow> None
      | Some match \<Rightarrow>
          (let attackingTeamID = (if bX ball > 50 then tID (mHomeTeam match)
                                  else tID (mAwayTeam match))
           in case playerLocations st matchID of
                None \<Rightarrow> None
              | Some locations \<Rightarrow>
                  fst (foldl (nearestStep st attackingTeamID ball) (None, None) locations)))"

text \<open>
  The first part of \<open>handleGoalEvent\<close>: who scores. \<open>shoots\<close> is the outcome of the
  random test \<open>rand.Float64() < getGoalProbability(player, ball)\<close> for the possessor.
\<close>

definition goalScorer :: "bool \<Rightarrow> int \<Rightarrow> sim_state \<Rightarrow> BallPosition \<Rightarrow> player_ref option" where
  "goalScorer shoots matchID st ball =
     (let scorer =
            (if bPossessorID ball > 0 then
               (case map_of (players st) (bPossessorID ball) of
                  None \<Rightarrow> None
                | Some player \<Rightarrow>
                    if (bX ball > 70 \<or> bX ball < 30) \<and>
                       pPosition (player_heap st player) \<noteq> PosGK \<and> shoots
                    then Some player else None)
             else None)
      in case scorer of
           None \<Rightarrow> findNearestAttackingPlayer st matchID ball
         | Some player \<Rightarrow> Some player)"

definition creditGoal :: "Player \<Rightarrow> Player" where
  "creditGoal scorer =
     scorer\<lparr>Goals := Goals scorer + 1,
            SeasonStats := (SeasonStats scorer)
               \<lparr>GoalsThisSeason := GoalsThisSeason (SeasonStats scorer) + 1\<rparr>,
            CurrentRating := CurrentRating scorer + 2.0\<rparr>"

definition creditAssist :: "Player \<Rightarrow> Player" where
  "creditAssist assister =
     assister\<lparr>Assists := Assists assister + 1,
              SeasonStats := (SeasonStats assister)
                 \<lparr>AssistsThisSeason := AssistsThisSeason (SeasonStats assister) + 1\<rparr>,
              CurrentRating := CurrentRating assister + 1.0\<rparr>"

text \<open>The assist block of \<open>handleGoalEvent\<close>: the pointer to the assister, if any.\<close>

definition goalAssister :: "sim_state \<Rightarrow> BallPosition \<Rightarrow> player_ref \<Rightarrow> player_ref option" where
  "goalAssister st ball scorer =
     (if bLastTouchID ball \<noteq> 0 \<and> bLastTouchID ball \<noteq> pID (player_heap st scorer) then
        (case map_of (players st) (bLastTouchID ball) of
           None \<Rightarrow> None
         | Some player \<Rightarrow>
             if pTeamID (player_heap st player) = pTeamID (player_heap st scorer)
             then Some player else None)
      else None)"

text \<open>
  \<open>handleGoalEvent\<close> in two parts. \<open>bookGoal\<close> is the body of \<open>if scorer != nil\<close> up to
  the recalculation of the probabilities: the score, the scorer, the assister, the
  momentum, the probabilities. \<open>handleGoalEvent\<close> finds the ball and the scorer, books
  the goal and puts the ball down for the kickoff, where the repositioning may panic.
\<close>

definition bookGoal ::
  "int \<Rightarrow> Match \<Rightarrow> BallPosition \<Rightarrow> player_ref \<Rightarrow> sim_state \<Rightarrow> Match \<times> sim_state" where
  "bookGoal matchID match ball scorer st =
     (let isHomeGoal = (pTeamID (player_heap st scorer) = tID (mHomeTeam match));
          match1 = (if isHomeGoal then match\<lparr>mHomeScore := mHomeScore match + 1\<rparr>
                    else match\<lparr>mAwayScore := mAwayScore match + 1\<rparr>);
          st0 = storeMatch matchID match match1 st;
          st1 = st0\<lparr>player_heap := (player_heap st0)
                     (scorer := creditGoal (player_heap st0 scorer))\<rparr>;
          st2 = (case goalAssister st1 ball scorer of
                   None \<Rightarrow> st1
                 | Some assister \<Rightarrow>
                     st1\<lparr>player_heap := (player_heap st1)
                           (assister := creditAssist (player_heap st1 assister))\<rparr>);
          st3 = updateMatchMomentum matchID match1 ''goal''
                  (pTeamID (player_heap st2 scorer)) st2;
          st4 = recalculateMatchProbabilities matchID match1 st3
      in (match1, st4))"

definition handleGoalEvent ::
  "repositioner \<Rightarrow> bool \<Rightarrow> int \<Rightarrow> Match \<Rightarrow> sim_state \<Rightarrow> error + Match \<times> sim_state" where
  "handleGoalEvent repos shoots matchID match st =
     (case ballPositions st matchID of
        None \<Rightarrow> Inr (match, st)
      | Some ball \<Rightarrow>
          (case goalScorer shoots matchID st ball of
             None \<Rightarrow> Inr (match, st)
           | Some scorer \<Rightarrow>
               (case bookGoal matchID match ball scorer st of
                  (match1, st4) \<Rightarrow>
                    (case setBallEvent repos matchID BallEventKickoff
                            (FieldWidth / 2) (FieldHeight / 2) 0 st4 of
                       Inl e \<Rightarrow> Inl e
                     | Inr st5 \<Rightarrow> Inr (match1, st5)))))"

subsection \<open>Cards\<close>

definition bumpStats :: "int \<Rightarrow> (MatchStats \<Rightarrow> MatchStats) \<Rightarrow> sim_state \<Rightarrow> error + sim_state" where
  "bumpStats matchID f st =
     (case matchStats st matchID of
        None \<Rightarrow> Inl NilDereference
      | Some stats \<Rightarrow> Inr (st\<lparr>matchStats := (matchStats st)(matchID \<mapsto> f stats)\<rparr>))"

text \<open>
  \<open>handleCardEvent\<close>. \<open>pick\<close> is the number drawn by \<open>rand.Intn\<close> (reduced to the
  length of the pool) and \<open>isRed\<close> the outcome of \<open>rand.Float32() < 0.1\<close>.
\<close>

definition handleCardEvent ::
  "nat \<Rightarrow> bool \<Rightarrow> int \<Rightarrow> Match \<Rightarrow> sim_state \<Rightarrow> error + sim_state" where
  "handleCardEvent pick isRed matchID match st =
     (let availablePlayers = getAvailablePlayersForMatch st matchID
      in if length availablePlayers = 0 then Inr st
         else
           (let player = availablePlayers ! (pick mod length availablePlayers);
                p = player_heap st player;
                isHomePlayer = (pTeamID p = tID (mHomeTeam match))
            in if isRed then
                 (let st1 = st\<lparr>player_heap := (player_heap st)
                                  (player := p\<lparr>RedCards := RedCards p + 1,
                                              SeasonStats := (SeasonStats p)
                                                \<lparr>RedCardsThisSeason :=
                                                   RedCardsThisSeason (SeasonStats p) + 1\<rparr>,
                                              CurrentRating := CurrentRating p - 2.0\<rparr>)\<rparr>;
                      st2 = setPlayerUnavailable matchID (pID p) PlayerRedCard (mMinute match)
                              ''Direct red card'' st1;
                      st3 = updateMatchMomentum matchID match ''red_card'' (pTeamID p) st2;
                      st4 = recalculateMatchProbabilities matchID match st3
                  in bumpStats matchID
                       (\<lambda>stats. if isHomePlayer
                                 then stats\<lparr>HomeRedCards := HomeRedCards stats + 1\<rparr>
                                 else stats\<lparr>AwayRedCards := AwayRedCards stats + 1\<rparr>) st4)
               else
                 (let st1 = st\<lparr>player_heap := (player_heap st)
                                  (player := p\<lparr>YellowCards := YellowCards p + 1,
                                              SeasonStats := (SeasonStats p)
                                                \<lparr>YellowCardsThisSeason :=
                                                   YellowCardsThisSeason (SeasonStats p) + 1\<rparr>,
                                              CurrentRating := CurrentRating p - 0.5\<rparr>)\<rparr>
                  in bumpStats matchID
                       (\<lambda>stats. if isHomePlayer
                                 then stats\<lparr>HomeYellowCards := HomeYellowCards stats + 1\<rparr>
                                 else stats\<lparr>AwayYellowCards := AwayYellowCards stats + 1\<rparr>) st1)))"

subsection \<open>Fouls\<close>

definition getPlayersNearAction ::
  "sim_state \<Rightarrow> int \<Rightarrow> BallPosition \<Rightarrow> real \<Rightarrow> player_ref list" where
  "getPlayersNearAction st matchID ball radius =
     (case playerLocations st matchID of
        None \<Rightarrow> []
      | Some locations \<Rightarrow>
          foldl (\<lambda>nearPlayers (playerID, location).
                   case map_of (players st) playerID of
                     None \<Rightarrow> nearPlayers
                   | Some player \<Rightarrow>
                       (let distance = sqrt ((lX location - bX ball)\<^sup>2 +
                                             (lY location - bY ball)\<^sup>2)
                        in if distance \<le> radius then nearPlayers @ [player]
                           else nearPlayers))
                [] locations)"

record FoulContext =
  IsInPenaltyArea :: bool
  IsNearGoal :: bool
  IsCounterAttack :: bool
  IsDangerousPlay :: bool
  BallPossessorTeam :: int

definition determineFoulContext :: "sim_state \<Rightarrow> BallPosition \<Rightarrow> Match \<Rightarrow> FoulContext" where
  "determineFoulContext st ball match =
     (let distanceToGoal =
            min (sqrt ((bX ball)\<^sup>2 + (bY ball - FieldHeight / 2)\<^sup>2))
                (sqrt ((bX ball - FieldWidth)\<^sup>2 + (bY ball - FieldHeight / 2)\<^sup>2))
      in \<lparr>IsInPenaltyArea =
            ((bX ball \<le> 18 \<and> bY ball \<ge> 20 \<and> bY ball \<le> 44) \<or>
             (bX ball \<ge> FieldWidth - 18 \<and> bY ball \<ge> 20 \<and> bY ball \<le> 44)),
          IsNearGoal = (distanceToGoal < 25),
          IsCounterAttack = False,
          IsDangerousPlay = (bSpeed ball > 8.0 \<and> (bX ball < 30 \<or> bX ball > 70)),
          BallPossessorTeam =
            (if bPossessorID ball > 0 then
               (case map_of (players st) (bPossessorID ball) of
                  None \<Rightarrow> 0
                | Some player \<Rightarrow> pTeamID (player_heap st player))
             else 0)\<rparr>)"

text \<open>
  The random numbers of one foul event: \<open>selectDraw\<close> is the value of \<open>rand.Float64()\<close>
  in \<open>selectFouler\<close>, a number in \<open>[0, 1)\<close>; the four others are the outcomes of the
  tests \<open>rand.Float64() < p\<close> in \<open>determineFoulSeverity\<close>, in the order of the source,
  for the tests that are made.
\<close>

record FoulDraws =
  selectDraw :: real
  penaltyDraw :: bool
  handlingDraw :: bool
  lastManDraw :: bool
  dangerDraw :: bool

text \<open>The weight that \<open>selectFouler\<close> gives to one candidate.\<close>

definition foulWeight :: "FoulContext \<Rightarrow> Player \<Rightarrow> real" where
  "foulWeight context player =
     (let weight = 1.0;
          weight1 = (if BallPossessorTeam context \<noteq> 0 \<and>
                        pTeamID player \<noteq> BallPossessorTeam context
                     then weight * 2.0 else weight);
          weight2 = (if pPosition player = PosCB \<or> pPosition player = PosCDM
                       then weight1 * 1.5
                     else if pPosition player = PosLB \<or> pPosition player = PosRB
                       then weight1 * 1.3
                     else if pPosition player = PosCM
                       then weight1 * 1.0
                     else if pPosition player = PosCAM \<or> pPosition player = PosLW \<or>
                             pPosition player = PosRW
                       then weight1 * 0.8
                     else if pPosition player = PosST
                       then weight1 * 0.6
                     else if pPosition player = PosGK
                       then (if IsInPenaltyArea context then weight1 * 1.8 else weight1 * 0.1)
                     else weight1);
          weight3 = (if IsNearGoal context then weight2 * 1.4 else weight2);
          weight4 = (if IsDangerousPlay context then weight3 * 1.6 else weight3)
      in weight4)"

text \<open>The last loop of \<open>selectFouler\<close>: the first candidate at which the running sum of
  the weights reaches \<open>r\<close>.\<close>

fun pickCumulative :: "real \<Rightarrow> real \<Rightarrow> (player_ref \<times> real) list \<Rightarrow> player_ref option" where
  "pickCumulative r cumulative [] = None"
| "pickCumulative r cumulative ((candidate, weight) # rest) =
     (if r \<le> cumulative + weight then Some candidate
      else pickCumulative r (cumulative + weight) rest)"

definition selectFouler ::
  "real \<Rightarrow> sim_state \<Rightarrow> player_ref list \<Rightarrow> BallPosition \<Rightarrow> FoulContext \<Rightarrow> player_ref option" where
  "selectFouler draw st candidates ball context =
     (if length candidates = 0 then None
      else
        (let weights = map (\<lambda>player. foulWeight context (player_heap st player)) candidates;
             totalWeight = foldl (+) 0.0 weights;
             r = draw * totalWeight
         in case pickCumulative r 0.0 (zip candidates weights) of
              Some player \<Rightarrow> Some player
            | None \<Rightarrow> Some (last candidates)))"

definition determineFoulSeverity ::
  "FoulDraws \<Rightarrow> Player \<Rightarrow> BallPosition \<Rightarrow> FoulContext \<Rightarrow> string" where
  "determineFoulSeverity draws fouler ball context =
     (let baseSeverity = ''yellow'';
          baseSeverity1 = (if IsInPenaltyArea context \<and> penaltyDraw draws
                           then ''red'' else baseSeverity);
          baseSeverity2 = (if pPosition fouler = PosGK \<and> \<not> IsInPenaltyArea context \<and>
                              bSpeed ball > 5.0 \<and> handlingDraw draws
                           then ''red'' else baseSeverity1);
          baseSeverity3 = (if IsNearGoal context \<and> pPosition fouler = PosCB \<and>
                              lastManDraw draws
                           then ''red'' else baseSeverity2);
          baseSeverity4 = (if IsDangerousPlay context \<and> dangerDraw draws
                           then ''red'' else baseSeverity3)
      in baseSeverity4)"

text \<open>
  \<open>applyFoulConsequences\<close> in two parts. \<open>bookFoul\<close> is the statistics and the card;
  \<open>applyFoulConsequences\<close> books the foul and puts the ball down for the penalty or the
  free kick. The fouler is the pointer chosen by \<open>selectFouler\<close>, the ball is the object
  of the match in \<open>ballPositions\<close>, which \<open>handleFoulEvent\<close> has found to exist.
\<close>

definition bookFoul ::
  "int \<Rightarrow> Match \<Rightarrow> player_ref \<Rightarrow> string \<Rightarrow> sim_state \<Rightarrow> error + sim_state" where
  "bookFoul matchID match fouler severity st =
     (let isHome = (pTeamID (player_heap st fouler) = tID (mHomeTeam match))
      in case bumpStats matchID
                (\<lambda>stats. if isHome then stats\<lparr>HomeFouls := HomeFouls stats + 1\<rparr>
                          else stats\<lparr>AwayFouls := AwayFouls stats + 1\<rparr>) st of
           Inl e \<Rightarrow> Inl e
         | Inr st1 \<Rightarrow>
             (let p = player_heap st1 fouler
              in if severity = ''yellow'' then
                   bumpStats matchID
                     (\<lambda>stats. if isHome
                               then stats\<lparr>HomeYellowCards := HomeYellowCards stats + 1\<rparr>
                               else stats\<lparr>AwayYellowCards := AwayYellowCards stats + 1\<rparr>)
                     (st1\<lparr>player_heap := (player_heap st1)
                            (fouler := p\<lparr>YellowCards := YellowCards p + 1,
                                        SeasonStats := (SeasonStats p)
                                          \<lparr>YellowCardsThisSeason :=
                                             YellowCardsThisSeason (SeasonStats p) + 1\<rparr>,
                                        CurrentRating := CurrentRating p - 0.3\<rparr>)\<rparr>)
                 else if severity = ''red'' then
                   bumpStats matchID
                     (\<lambda>stats. if isHome
                               then stats\<lparr>HomeRedCards := HomeRedCards stats + 1\<rparr>
                               else stats\<lparr>AwayRedCards := AwayRedCards stats + 1\<rparr>)
                     (st1\<lparr>player_heap := (player_heap st1)
                            (fouler := p\<lparr>RedCards := RedCards p + 1,
                                        SeasonStats := (SeasonStats p)
                                          \<lparr>RedCardsThisSeason :=
                                             RedCardsThisSeason (SeasonStats p) + 1\<rparr>,
                                        CurrentRating := CurrentRating p - 1.5\<rparr>)\<rparr>)
                 else Inr st1))"

definition applyFoulConsequences ::
  "repositioner \<Rightarrow> int \<Rightarrow> Match \<Rightarrow> player_ref \<Rightarrow> BallPosition \<Rightarrow> string \<Rightarrow> FoulContext \<Rightarrow>
   sim_state \<Rightarrow> error + sim_state" where
  "applyFoulConsequences repos matchID match fouler ball severity context st =
     (case bookFoul matchID match fouler severity st of
        Inl e \<Rightarrow> Inl e
      | Inr st2 \<Rightarrow>
          if IsInPenaltyArea context \<and>
             pTeamID (player_heap st2 fouler) \<noteq> BallPossessorTeam context
          then
            (let penaltyX = (if bX ball < FieldWidth / 2 then FieldWidth - 11.0 else 11.0)
             in setBallEvent repos matchID BallEventPenalty penaltyX (FieldHeight / 2) 0 st2)
          else setBallEvent repos matchID BallEventFreekick (bX ball) (bY ball) 0 st2)"

definition handleFoulEvent ::
  "repositioner \<Rightarrow> FoulDraws \<Rightarrow> int \<Rightarrow> Match \<Rightarrow> sim_state \<Rightarrow> error + sim_state" where
  "handleFoulEvent repos draws matchID match st =
     (case ballPositions st matchID of
        None \<Rightarrow> Inr st
      | Some ball \<Rightarrow>
          (let playersNearBall = getPlayersNearAction st matchID ball 8.0
           in if length playersNearBall < 2 then Inr st
              else
                (let foulContext = determineFoulContext st ball match
                 in case selectFouler (selectDraw draws) st playersNearBall ball foulContext of
                      None \<Rightarrow> Inr st
                    | Some fouler \<Rightarrow>
                        (let severity = determineFoulSeverity draws (player_heap st fouler)
                                          ball foulContext
                         in applyFoulConsequences repos matchID match fouler ball severity
                              foulContext st))))"

section \<open>Season lifecycle\<close>

definition SeasonMatches :: int where "SeasonMatches = 38"
definition MaxSeasonHistory :: nat where "MaxSeasonHistory = 10"

text \<open>\<open>shouldEndSeason\<close>: the loops return \<open>false\<close> at the first fixture that is not
  played.\<close>

definition shouldEndSeason :: "sim_state \<Rightarrow> bool" where
  "shouldEndSeason st =
     list_all (\<lambda>league. case seasonSchedules st league of
                           None \<Rightarrow> True
                         | Some schedules \<Rightarrow> list_all sIsPlayed schedules)
              leagueOrder"

definition initializeLeagueTables :: "sim_state \<Rightarrow> sim_state" where
  "initializeLeagueTables st =
     foldl (\<lambda>st1 league.
              let leagueTeams = getTeamsByLeague st1 league;
                  table = map (\<lambda>(i, team).
                                 \<lparr>Position = int i + 1, Team = team_heap st1 team, Played = 0,
                                  Won = 0, Drawn = 0, Lost = 0, GoalsFor = 0, GoalsAgainst = 0,
                                  GoalDiff = 0, Points = 0, Form = []\<rparr>)
                              (enumerate 0 leagueTeams)
              in st1\<lparr>leagueTables := (leagueTables st1)(league \<mapsto> table)\<rparr>)
           st leagueOrder"

definition calculateSeasonWinner :: "sim_state \<Rightarrow> TeamInfo" where
  "calculateSeasonWinner st =
     (case leagueTables st LeaguePremier of
        Some (row # rest) \<Rightarrow> Team row
      | _ \<Rightarrow> (case teams st of
                (k, team) # rest \<Rightarrow> team_heap st team
              | [] \<Rightarrow> zeroTeam\<lparr>tName := ''Unknown''\<rparr>))"

text \<open>
  The four award scans have the same shape: a loop over the players that keeps the
  first player whose value is strictly above the maximum so far, and, when no player was
  kept, a second loop that returns the first player it meets (\<open>nil\<close> when there is no
  player). The model visits the players in the order of the association list in both
  loops.
\<close>

definition bestPlayer ::
  "sim_state \<Rightarrow> (Player \<Rightarrow> 'a \<Rightarrow> bool) \<Rightarrow> (Player \<Rightarrow> 'a) \<Rightarrow> 'a \<Rightarrow> player_ref option" where
  "bestPlayer st better val start =
     (case fst (foldl (\<lambda>(best, maxVal) player.
                         if better (player_heap st player) maxVal
                         then (Some player, val (player_heap st player))
                         else (best, maxVal))
                      (None, start) (map snd (players st))) of
        Some player \<Rightarrow> Some player
      | None \<Rightarrow> (case players st of [] \<Rightarrow> None | (k, player) # rest \<Rightarrow> Some player))"

definition findTopScorer :: "sim_state \<Rightarrow> player_ref option" where
  "findTopScorer st =
     bestPlayer st (\<lambda>p maxGoals. GoalsThisSeason (SeasonStats p) > maxGoals)
                   (\<lambda>p. GoalsThisSeason (SeasonStats p)) 0"

definition findTopAssists :: "sim_state \<Rightarrow> player_ref option" where
  "findTopAssists st =
     bestPlayer st (\<lambda>p maxAssists. AssistsThisSeason (SeasonStats p) > maxAssists)
                   (\<lambda>p. AssistsThisSeason (SeasonStats p)) 0"

definition findMostFouls :: "sim_state \<Rightarrow> player_ref option" where
  "findMostFouls st =
     bestPlayer st
       (\<lambda>p maxFouls. YellowCardsThisSeason (SeasonStats p)
                        + RedCardsThisSeason (SeasonStats p) * 2 > maxFouls)
       (\<lambda>p. YellowCardsThisSeason (SeasonStats p) + RedCardsThisSeason (SeasonStats p) * 2) 0"

definition findPlayerOfSeason :: "sim_state \<Rightarrow> player_ref option" where
  "findPlayerOfSeason st =
     bestPlayer st
       (\<lambda>p maxRating. AverageRating (SeasonStats p) > maxRating \<and>
                       MatchesPlayed (SeasonStats p) \<ge> 10)
       (\<lambda>p. AverageRating (SeasonStats p)) 0.0"

definition calculateTotalSeasonGoals :: "sim_state \<Rightarrow> int" where
  "calculateTotalSeasonGoals st =
     foldl (\<lambda>total player. total + GoalsThisSeason (SeasonStats (player_heap st player)))
           0 (map snd (players st))"

definition resetPlayer :: "Player \<Rightarrow> Player" where
  "resetPlayer player =
     player\<lparr>Goals := Goals player + GoalsThisSeason (SeasonStats player),
            Assists := Assists player + AssistsThisSeason (SeasonStats player),
            YellowCards := YellowCards player + YellowCardsThisSeason (SeasonStats player),
            RedCards := RedCards player + RedCardsThisSeason (SeasonStats player),
            SeasonStats := \<lparr>MatchesPlayed = 0, MinutesPlayed = 0, GoalsThisSeason = 0,
                            AssistsThisSeason = 0, YellowCardsThisSeason = 0,
                            RedCardsThisSeason = 0, AverageRating = 0, TotalRating = 0\<rparr>,
            CurrentRating := 6.0\<rparr>"

definition resetForNewSeason :: "sim_state \<Rightarrow> sim_state" where
  "resetForNewSeason st =
     initializeLeagueTables
       (foldl (\<lambda>st1 player.
                 st1\<lparr>player_heap := (player_heap st1)
                       (player := resetPlayer (player_heap st1 player))\<rparr>)
              st (map snd (players st)))"

text \<open>
  \<open>endSeason\<close>. The four award pointers are dereferenced to fill the history record;
  with no player at all they are \<open>nil\<close> and the dereference panics.
\<close>

definition endSeason :: "sim_state \<Rightarrow> error + sim_state" where
  "endSeason st =
     (let seasonWinner = calculateSeasonWinner st
      in case (findTopScorer st, findTopAssists st, findMostFouls st, findPlayerOfSeason st) of
           (Some topScorer, Some topAssists, Some mostFouls, Some playerOfSeason) \<Rightarrow>
             (let seasonRecord =
                    \<lparr>hSeason = currentSeason st,
                     hTopScorer = player_heap st topScorer,
                     hTopAssists = player_heap st topAssists,
                     hMostFouls = player_heap st mostFouls,
                     hPlayerOfSeason = player_heap st playerOfSeason,
                     hChampion = seasonWinner,
                     hTotalGoals = calculateTotalSeasonGoals st,
                     hTotalMatches = SeasonMatches\<rparr>;
                  history = seasonHistory st @ [seasonRecord];
                  history1 = (if length history > MaxSeasonHistory then tl history else history);
                  st1 = resetForNewSeason (st\<lparr>seasonHistory := history1\<rparr>)
              in Inr (st1\<lparr>currentSeason := currentSeason st1 + 1, currentMatchweek := 1\<rparr>))
         | _ \<Rightarrow> Inl NilDereference)"

definition startNewSeason :: "sim_state \<Rightarrow> sim_state" where
  "startNewSeason st =
     st\<lparr>currentSeason := currentSeason st + 1, currentMatchweek := 1, finishedMatches := []\<rparr>"

text \<open>The body of the ticker case of \<open>seasonManager\<close> (the same three lines close the
  matchweek branch of \<open>updateLeagueTable\<close>).\<close>

definition seasonCheck :: "sim_state \<Rightarrow> error + sim_state" where
  "seasonCheck st =
     (if shouldEndSeason st then
        (case endSeason st of
           Inl e \<Rightarrow> Inl e
         | Inr st1 \<Rightarrow> Inr (startNewSeason st1))
      else Inr st)"

section \<open>League tables\<close>

abbreviation FormWin :: string where "FormWin \<equiv> ''W''"
abbreviation FormLoss :: string where "FormLoss \<equiv> ''L''"
abbreviation FormDraw :: string where "FormDraw \<equiv> ''D''"

definition updateTeamForm :: "TeamInfo \<Rightarrow> string \<Rightarrow> bool \<Rightarrow> TeamInfo" where
  "updateTeamForm team result isHome =
     (let form = (if length (tForm team) \<ge> 5 then tl (tForm team) else tForm team) @ [result];
          formPoints = foldl (\<lambda>points r. if r = ''W'' then points + 3
                                          else if r = ''D'' then points + 1
                                          else points) 0 form
      in team\<lparr>tForm := form, tFormPoints := formPoints\<rparr>)"

text \<open>
  \<open>sortLeagueTable\<close>: the bubble sort, written with the indices of the source.
  \<open>worse a b\<close> is the condition under which the rows at \<open>j\<close> and \<open>j + 1\<close> are swapped,
  \<open>bubbleStep\<close> is the body of the inner loop, \<open>bubblePass\<close> the inner loop for one
  value of \<open>i\<close>. No index leaves the slice: \<open>j + 1 \<le> len(table) - i - 1\<close>.
\<close>

definition worse :: "LeagueTable \<Rightarrow> LeagueTable \<Rightarrow> bool" where
  "worse a b \<longleftrightarrow> Points a < Points b \<or> (Points a = Points b \<and> GoalDiff a < GoalDiff b)"

definition bubbleStep :: "LeagueTable list \<Rightarrow> nat \<Rightarrow> LeagueTable list" where
  "bubbleStep table j =
     (if worse (table ! j) (table ! (j + 1))
      then table[j := table ! (j + 1), j + 1 := table ! j]
      else table)"

definition bubblePass :: "LeagueTable list \<Rightarrow> nat \<Rightarrow> LeagueTable list" where
  "bubblePass table i = foldl bubbleStep table [0..<length table - i - 1]"

definition sortLeagueTable :: "LeagueTable list \<Rightarrow> LeagueTable list" where
  "sortLeagueTable table =
     (let sorted = foldl bubblePass table [0..<length table - 1]
      in map (\<lambda>(i, team). team\<lparr>Position := int i + 1\<rparr>) (enumerate 0 sorted))"

text \<open>The inner loop of \<open>updateTeamStats\<close> over the rows of one table: the first row of
  the team is updated and the loop is left.\<close>

fun updateFirst :: "('a \<Rightarrow> bool) \<Rightarrow> ('a \<Rightarrow> 'a) \<Rightarrow> 'a list \<Rightarrow> 'a list" where
  "updateFirst P f [] = []"
| "updateFirst P f (x # xs) = (if P x then f x # xs else x # updateFirst P f xs)"

definition updateEntry ::
  "TeamInfo \<Rightarrow> bool \<Rightarrow> int \<Rightarrow> int \<Rightarrow> int \<Rightarrow> int \<Rightarrow> Match \<Rightarrow> LeagueTable \<Rightarrow> LeagueTable" where
  "updateEntry team isHome points wins draws losses match teamEntry =
     (let e1 = teamEntry\<lparr>Points := Points teamEntry + points,
                          Won := Won teamEntry + wins,
                          Drawn := Drawn teamEntry + draws,
                          Lost := Lost teamEntry + losses\<rparr>;
          e2 = e1\<lparr>Played := Won e1 + Drawn e1 + Lost e1\<rparr>;
          e3 = (if isHome
                then e2\<lparr>GoalsFor := GoalsFor e2 + mHomeScore match,
                        GoalsAgainst := GoalsAgainst e2 + mAwayScore match\<rparr>
                else e2\<lparr>GoalsFor := GoalsFor e2 + mAwayScore match,
                        GoalsAgainst := GoalsAgainst e2 + mHomeScore match\<rparr>)
      in e3\<lparr>GoalDiff := GoalsFor e3 - GoalsAgainst e3, Team := team\<rparr>)"

text \<open>
  \<open>updateTeamStats\<close>. The loop over \<open>leagueTables\<close> treats every league on its own
  (it updates the team's row in that table, if there is one, and sorts that table), so
  the order in which the map is visited does not matter and the loop is the pointwise
  image of the map.
\<close>

definition updateTeamStats ::
  "int \<Rightarrow> int \<Rightarrow> int \<Rightarrow> int \<Rightarrow> int \<Rightarrow> Match \<Rightarrow> sim_state \<Rightarrow> sim_state" where
  "updateTeamStats teamID points wins draws losses match st =
     (case map_of (teams st) teamID of
        None \<Rightarrow> st
      | Some team \<Rightarrow>
          (let result = (if wins > 0 then FormWin else if draws > 0 then FormDraw else FormLoss);
               isHome = (tID (mHomeTeam match) = teamID);
               st1 = st\<lparr>team_heap := (team_heap st)
                          (team := updateTeamForm (team_heap st team) result isHome)\<rparr>
           in st1\<lparr>leagueTables :=
                   (\<lambda>league.
                      map_option
                        (\<lambda>table. sortLeagueTable
                                    (updateFirst (\<lambda>teamEntry. tID (Team teamEntry) = teamID)
                                       (updateEntry (team_heap st1 team) isHome points wins draws
                                          losses match)
                                       table))
                        (leagueTables st1 league))\<rparr>))"

subsection \<open>The momentum deltas as stated\<close>

text \<open>The pair of momentum scalars (home, away) of a match; a match without an entry
  reads as the zero pair, which is what \<open>updateMatchMomentum\<close> creates for it.\<close>

definition momentumOf :: "sim_state \<Rightarrow> int \<Rightarrow> real \<times> real" where
  "momentumOf st matchID =
     (case matchMomentum st matchID of
        None \<Rightarrow> (0, 0)
      | Some m \<Rightarrow> (HomeTeamMomentum m, AwayTeamMomentum m))"

text \<open>
  The specification's table of deltas, as the pair (delta of the affected team, delta
  of its opponent): goal \<open>+0.3 / -0.2\<close>, red card \<open>-0.4 / +0.2\<close>, corner \<open>\<plusminus>0.1\<close> and
  foul \<open>\<mp>0.05\<close> on both teams symmetrically. \<open>claimedMomentum\<close> is the momentum pair that
  the specification's sentence gives: the old pair plus exactly these deltas.
\<close>

definition claimedDelta :: "string \<Rightarrow> real \<times> real" where
  "claimedDelta eventType =
     (if eventType = ''goal'' then (0.3, - 0.2)
      else if eventType = ''red_card'' then (- 0.4, 0.2)
      else if eventType = ''corner'' then (0.1, - 0.1)
      else if eventType = ''foul'' then (- 0.05, 0.05)
      else (0, 0))"

definition claimedMomentum :: "string \<Rightarrow> bool \<Rightarrow> real \<times> real \<Rightarrow> real \<times> real" where
  "claimedMomentum eventType isHomeTeam old =
     (if isHomeTeam
      then (fst old + fst (claimedDelta eventType), snd old + snd (claimedDelta eventType))
      else (fst old + snd (claimedDelta eventType), snd old + fst (claimedDelta eventType)))"

text \<open>
  The table that the code implements, again as (affected team, opponent): corners and
  fouls move the affected team only. \<open>amendedMomentum\<close> adds the deltas and clamps each
  scalar to \<open>[-1, 1]\<close>.
\<close>

definition amendedDelta :: "string \<Rightarrow> real \<times> real" where
  "amendedDelta eventType =
     (if eventType = ''goal'' then (0.3, - 0.2)
      else if eventType = ''red_card'' then (- 0.4, 0.2)
      else if eventType = ''corner'' then (0.1, 0)
      else if eventType = ''foul'' then (- 0.05, 0)
      else (0, 0))"

definition clampUnit :: "real \<Rightarrow> real" where
  "clampUnit x = max (- 1) (min 1 x)"

definition amendedMomentum :: "string \<Rightarrow> bool \<Rightarrow> real \<times> real \<Rightarrow> real \<times> real" where
  "amendedMomentum eventType isHomeTeam old =
     (if isHomeTeam
      then (clampUnit (fst old + fst (amendedDelta eventType)),
            clampUnit (snd old + snd (amendedDelta eventType)))
      else (clampUnit (fst old + snd (amendedDelta eventType)),
            clampUnit (snd old + fst (amendedDelta eventType))))"

text \<open>A state in which match 1 has the home momentum 0.9.\<close>

definition highMomentumState :: sim_state where
  "highMomentumState =
     emptyState\<lparr>matchMomentum := [1 \<mapsto> zeroMomentum\<lparr>HomeTeamMomentum := 0.9\<rparr>]\<rparr>"

subsection \<open>A match in play\<close>

text \<open>
  A state with one live match (ID 1, team 1 at home against team 2, minute 30) and three of its
  players: a striker (ID 11) and a midfielder (ID 12) of the home team and the goalkeeper
  (ID 13) of the away team. The striker has the ball in the attacking third, the
  midfielder touched it last.
\<close>

definition goalPlayer :: "player_ref \<Rightarrow> Player" where
  "goalPlayer r =
     zeroPlayer\<lparr>pID := int r,
                pPosition := (if r = 11 then PosST else if r = 13 then PosGK else ''CM''),
                pTeamID := (if r = 13 then 2 else 1)\<rparr>"

definition goalBall :: BallPosition where
  "goalBall = \<lparr>bX = 80, bY = 32, bPossessorID = 11, bLastTouchID = 12, bSpeed = 0,
               bEventType = ''PLAY''\<rparr>"

definition liveMatch :: Match where
  "liveMatch = (kickoff 0 3)\<lparr>mMinute := 30\<rparr>"

definition goalState :: sim_state where
  "goalState = emptyState
     \<lparr>players := [(11, 11), (12, 12), (13, 13)], player_heap := goalPlayer,
      matches := [(1, liveMatch)], matchCounter := 1,
      ballPositions := [1 \<mapsto> goalBall],
      matchStats := [1 \<mapsto> generateInitialMatchStats],
      playerLocations := [1 \<mapsto> []], playerAvailability := [1 \<mapsto> []]\<rparr>"

text \<open>The end of the first season of \<open>goalState\<close>'s league: both fixtures of the two
  teams are played, the striker has scored three goals this season.\<close>

definition seasonOverState :: sim_state where
  "seasonOverState = goalState
     \<lparr>teams := [(1, 1), (2, 2)], team_heap := premierTeam,
      player_heap := (goalPlayer
         (11 := (goalPlayer 11)\<lparr>SeasonStats := (SeasonStats (goalPlayer 11))
                                   \<lparr>GoalsThisSeason := 3\<rparr>\<rparr>)),
      seasonSchedules := [LeaguePremier \<mapsto>
         [\<lparr>sMatchday = 1, sLeague = LeaguePremier, sHomeTeam = 1, sAwayTeam = 2,
           sIsPlayed = True, sMatchID = 1\<rparr>,
          \<lparr>sMatchday = 2, sLeague = LeaguePremier, sHomeTeam = 2, sAwayTeam = 1,
           sIsPlayed = True, sMatchID = 2\<rparr>]],
      matches := [], matchCounter := 2, currentSeason := 1, currentMatchweek := 3\<rparr>"

subsection \<open>A match between two squads\<close>

text \<open>The squad that \<open>initializeSimulation\<close> gives to every team: nineteen players
  with these positions, in this order.\<close>

definition squadPositions :: "string list" where
  "squadPositions = [PosGK, PosGK, PosCB, PosCB, PosCB, PosLB, PosLB, PosRB, PosRB,
                     PosCDM, PosCDM, PosCM, PosCM, PosCM, PosCAM, PosLW, PosRW, PosST, PosST]"

text \<open>
  Two squads: the players 1 to 19 are the squad of team 1 and the players 20 to 38 the
  squad of team 2, each stored under his ID, with the rating 6.0 of a new player. Player
  15 is the attacking midfielder and player 18 a striker of team 1, the players 22 and 23
  are centre-backs of team 2.
\<close>

definition squadPlayer :: "player_ref \<Rightarrow> Player" where
  "squadPlayer r =
     zeroPlayer\<lparr>pID := int r, pPosition := squadPositions ! ((r - 1) mod 19),
                pTeamID := (if r \<le> 19 then 1 else 2), CurrentRating := 6.0\<rparr>"

definition squadMatch :: Match where
  "squadMatch = \<lparr>mID = 1, mHomeTeam = premierTeam 1, mAwayTeam = premierTeam 2,
                  mHomeScore = 0, mAwayScore = 0, mMinute = 30, mStatus = StatusLive,
                  mCompetition = LeaguePremier, mSeason = 1, mMatchweekNum = 1,
                  mStartTime = 0, mEndTime = None, mInjuryTime = 3, mHalftimeEndTime = 0,
                  mIsInBreak = False\<rparr>"

text \<open>The ball at the feet of striker 18 in the penalty area of team 2, last touched by
  player 15.\<close>

definition squadBall :: BallPosition where
  "squadBall = \<lparr>bX = 85, bY = 32, bPossessorID = 18, bLastTouchID = 15, bSpeed = 3,
                 bEventType = BallEventPlay\<rparr>"

text \<open>The locations of eleven players of each team. The striker is on the ball, the two
  centre-backs of team 2 are within eight units of it, everybody else is further away.\<close>

definition squadLocations :: "(int \<times> PlayerLocation) list" where
  "squadLocations =
     [(1, \<lparr>lX = 5, lY = 32\<rparr>), (3, \<lparr>lX = 40, lY = 20\<rparr>), (4, \<lparr>lX = 40, lY = 44\<rparr>),
      (6, \<lparr>lX = 45, lY = 8\<rparr>), (8, \<lparr>lX = 45, lY = 56\<rparr>), (10, \<lparr>lX = 55, lY = 32\<rparr>),
      (12, \<lparr>lX = 65, lY = 22\<rparr>), (15, \<lparr>lX = 72, lY = 34\<rparr>), (16, \<lparr>lX = 78, lY = 12\<rparr>),
      (17, \<lparr>lX = 78, lY = 52\<rparr>), (18, \<lparr>lX = 85, lY = 32\<rparr>),
      (20, \<lparr>lX = 95, lY = 32\<rparr>), (22, \<lparr>lX = 88, lY = 30\<rparr>), (23, \<lparr>lX = 90, lY = 36\<rparr>),
      (25, \<lparr>lX = 86, lY = 12\<rparr>), (27, \<lparr>lX = 86, lY = 52\<rparr>), (29, \<lparr>lX = 76, lY = 30\<rparr>),
      (31, \<lparr>lX = 70, lY = 20\<rparr>), (32, \<lparr>lX = 70, lY = 44\<rparr>), (35, \<lparr>lX = 50, lY = 10\<rparr>),
      (36, \<lparr>lX = 50, lY = 54\<rparr>), (37, \<lparr>lX = 45, lY = 32\<rparr>)]"

text \<open>
  The state: the match is stored with the entries that \<open>createNextMatch\<close> creates for
  a match (statistics, momentum, probabilities, availability), the location map and the
  ball are as above.
\<close>

definition squadState :: sim_state where
  "squadState = emptyState
     \<lparr>teams := [(1, 1), (2, 2)], team_heap := premierTeam,
      players := map (\<lambda>r. (int r, r)) [1..<39], player_heap := squadPlayer,
      matches := [(1, squadMatch)], matchCounter := 1,
      matchStats := [1 \<mapsto> generateInitialMatchStats],
      playerLocations := [1 \<mapsto> squadLocations],
      matchMomentum := [1 \<mapsto> zeroMomentum],
      dynamicProbabilities := [1 \<mapsto>
         (case calculateMatchProbabilities (premierTeam 1) (premierTeam 2) of
            (homeWin, draw, awayWin) \<Rightarrow>
              \<lparr>dMatchID = 1, HomeWinProbability = homeWin, DrawProbability = draw,
               AwayWinProbability = awayWin, NextGoalProbability = 0.02,
               HomeNextGoalProb = 0.01, AwayNextGoalProb = 0.01, Factors = Map.empty\<rparr>)],
      playerAvailability := [1 \<mapsto> []],
      ballPositions := [1 \<mapsto> squadBall]\<rparr>"

text \<open>The random numbers of a foul event that ends with a red card: the selection draw
  is one half, the test for a penalty-area foul succeeds, the others fail.\<close>

definition redDraws :: FoulDraws where
  "redDraws = \<lparr>selectDraw = 1 / 2, penaltyDraw = True, handlingDraw = False,
                lastManDraw = False, dangerDraw = False\<rparr>"

text \<open>
  A repositioner: what \<open>repositionForKickoff\<close> does when both teams play 4-4-2, the
  formation that \<open>getFormationPositions\<close> also falls back to. The first eleven of each
  team are put on the rows of the formation table.
\<close>

definition get442Formation :: "bool \<Rightarrow> (real \<times> real) list" where
  "get442Formation isHome =
     (let baseX = (if isHome then 20.0 else 80.0)
      in [(baseX - 15, FieldHeight / 2),
          (baseX, FieldHeight * 0.2),
          (baseX, FieldHeight * 0.8),
          (baseX + 5, FieldHeight * 0.1),
          (baseX + 5, FieldHeight * 0.9),
          (baseX + 20, FieldHeight * 0.25),
          (baseX + 20, FieldHeight * 0.45),
          (baseX + 20, FieldHeight * 0.55),
          (baseX + 20, FieldHeight * 0.75),
          (baseX + 35, FieldHeight * 0.35),
          (baseX + 35, FieldHeight * 0.65)])"

definition placePlayers ::
  "sim_state \<Rightarrow> (int \<times> PlayerLocation) list \<Rightarrow> (player_ref \<times> real \<times> real) list \<Rightarrow>
   (int \<times> PlayerLocation) list" where
  "placePlayers st locations placed =
     foldl (\<lambda>locs (player, x, y).
              AList.update (pID (player_heap st player)) \<lparr>lX = x, lY = y\<rparr> locs)
           locations placed"

definition kickoff442 :: repositioner where
  "kickoff442 matchID eventType ballX ballY st =
     (case map_of (matches st) matchID of
        None \<Rightarrow> []
      | Some match \<Rightarrow>
          (case playerLocations st matchID of
             None \<Rightarrow> []
           | Some locations \<Rightarrow>
               placePlayers st
                 (placePlayers st locations
                    (zip (take 11 (getPlayersFromTeam st (tID (mHomeTeam match))))
                         (get442Formation True)))
                 (zip (take 11 (getPlayersFromTeam st (tID (mAwayTeam match))))
                      (get442Formation False))))"

text \<open>A table of three Premier League teams before the third beats the first 5-0 at
  home.\<close>

definition tableRow :: "team_ref \<Rightarrow> int \<Rightarrow> int \<Rightarrow> int \<Rightarrow> int \<Rightarrow> LeagueTable" where
  "tableRow team pos pts gf ga =
     \<lparr>Position = pos, Team = premierTeam team, Played = 1, Won = (if pts = 3 then 1 else 0),
      Drawn = 0, Lost = (if pts = 3 then 0 else 1), GoalsFor = gf, GoalsAgainst = ga,
      GoalDiff = gf - ga, Points = pts, Form = []\<rparr>"

definition tableState :: sim_state where
  "tableState = emptyState
     \<lparr>teams := [(1, 1), (2, 2), (3, 3)], team_heap := premierTeam,
      leagueTables := [LeaguePremier \<mapsto>
         [tableRow 1 1 3 2 1, tableRow 2 2 3 1 1, tableRow 3 3 0 0 1]]\<rparr>"

definition tableMatch :: Match where
  "tableMatch = (kickoff 0 3)
     \<lparr>mHomeTeam := premierTeam 3, mAwayTeam := premierTeam 1, mHomeScore := 5, mAwayScore := 0,
      mMinute := 93, mStatus := StatusFinished\<rparr>"

text \<open>A sorter that \<open>sort.Slice\<close> may be: the stable insertion sort by matchday.\<close>

definition sortByMatchday :: sorter where
  "sortByMatchday = sort_key (\<lambda>(ref, schedule). sMatchday schedule)"

text \<open>A state at the cap: two Premier League teams that have met once, the return
  fixture unplayed, and four live Premier League matches.\<close>

definition capFixture :: SeasonSchedule where
  "capFixture = \<lparr>sMatchday = 2, sLeague = LeaguePremier, sHomeTeam = 2, sAwayTeam = 1,
                  sIsPlayed = False, sMatchID = 0\<rparr>"

definition capMatch :: "int \<Rightarrow> Match" where
  "capMatch k = \<lparr>mID = k, mHomeTeam = premierTeam 1, mAwayTeam = premierTeam 2,
                  mHomeScore = 0, mAwayScore = 0, mMinute = 10, mStatus = StatusLive,
                  mCompetition = LeaguePremier, mSeason = 1, mMatchweekNum = 1,
                  mStartTime = 0, mEndTime = None, mInjuryTime = 3, mHalftimeEndTime = 0,
                  mIsInBreak = False\<rparr>"

definition capState :: sim_state where
  "capState = premierState
     \<lparr>teams := [(1, 1), (2, 2)],
      seasonSchedules := [LeaguePremier \<mapsto>
         [\<lparr>sMatchday = 1, sLeague = LeaguePremier, sHomeTeam = 1, sAwayTeam = 2,
           sIsPlayed = True, sMatchID = 1\<rparr>, capFixture]],
      matches := [(1, capMatch 1), (2, capMatch 2), (3, capMatch 3), (4, capMatch 4)],
      matchCounter := 4\<rparr>"

section \<open>Theorems\<close>

lemma premier_league_teams:
  "getTeamsByLeague premierState LeaguePremier = [1, 2, 3, 4, 5, 6, 7, 8, 9, 10]"
  by (simp add: getTeamsByLeague_def premierState_def emptyState_def premierTeam_def upt_rec)

subsection \<open>Season schedule\<close>

text \<open>
  The size of the schedule is as intended for every even number of teams: each round
  has half as many pairings as there are teams, and the two legs together produce
  \<open>N * (N - 1)\<close> fixtures on the matchdays 1 to \<open>2 * (N - 1)\<close>. The pairings are not:
  whatever the order of ten teams, the first round pairs the second team twice and
  leaves the sixth out.
\<close>

lemma roundStep_appends:
  assumes "i < length ts div 2" "even (length ts)"
  shows "length (roundStep ts r acc i) = Suc (length acc)"
proof -
  define n where "n = length ts"
  define k where "k = (n - 1 - i + r) mod (n - 1)"
  from assms have n: "2 \<le> n" "i < n - 1" by (auto simp: n_def)
  then have "k < n - 1" by (simp add: k_def)
  with n have "i < n \<and> (if k \<ge> i then k + 1 else k) < n \<and> i \<noteq> (if k \<ge> i then k + 1 else k)"
    by auto
  then show ?thesis
    unfolding roundStep_def Let_def n_def[symmetric] k_def[symmetric] by simp
qed

lemma round_fold_length:
  assumes "even (length ts)" "\<forall>i \<in> set is. i < length ts div 2"
  shows "length (foldl (roundStep ts r) acc is) = length acc + length is"
  using assms(2)
proof (induction "is" arbitrary: acc)
  case Nil
  then show ?case by simp
next
  case (Cons i "is")
  then show ?case by (simp add: roundStep_appends[OF _ assms(1)])
qed

lemma round_size:
  "even (length ts) \<Longrightarrow> length (generateRoundMatches ts r) = length ts div 2"
  by (simp add: generateRoundMatches_def Let_def round_fold_length)

lemma firstLegRound_size:
  assumes "even (length ts)"
  shows "length (fst (firstLegRound league ts p r)) = length (fst p) + length ts div 2 \<and>
         snd (firstLegRound league ts p r) = snd p + 1"
  by (cases p) (simp add: firstLegRound_def round_size[OF assms])

lemma returnLegRound_size:
  assumes "even (length ts)"
  shows "length (fst (returnLegRound league ts p r)) = length (fst p) + length ts div 2 \<and>
         snd (returnLegRound league ts p r) = snd p + 1"
  by (cases p) (simp add: returnLegRound_def round_size[OF assms])

lemma first_leg_size:
  assumes "even (length ts)"
  shows "length (fst (foldl (firstLegRound league ts) p [0..<k]))
           = length (fst p) + k * (length ts div 2) \<and>
         snd (foldl (firstLegRound league ts) p [0..<k]) = snd p + int k"
  by (induction k) (simp_all add: firstLegRound_size[OF assms])

lemma return_leg_size:
  assumes "even (length ts)"
  shows "length (fst (foldl (returnLegRound league ts) p [0..<k]))
           = length (fst p) + k * (length ts div 2) \<and>
         snd (foldl (returnLegRound league ts) p [0..<k]) = snd p + int k"
  by (induction k) (simp_all add: returnLegRound_size[OF assms])

lemma season_size:
  assumes "even (length ts)"
  shows "length (fst (foldl (returnLegRound league ts)
                        (foldl (firstLegRound league ts) ([], 1) [0..<length ts - 1])
                        [0..<length ts - 1]))
           = length ts * (length ts - 1) \<and>
         snd (foldl (returnLegRound league ts)
                        (foldl (firstLegRound league ts) ([], 1) [0..<length ts - 1])
                        [0..<length ts - 1])
           = 1 + 2 * int (length ts - 1)"
proof -
  define leg1 where "leg1 = foldl (firstLegRound league ts) ([], 1) [0..<length ts - 1]"
  from first_leg_size[OF assms, of league "([], 1)" "length ts - 1"]
  have a: "length (fst leg1) = (length ts - 1) * (length ts div 2)"
    "snd leg1 = 1 + int (length ts - 1)"
    by (simp_all add: leg1_def)
  from assms obtain m where m: "length ts = 2 * m" by (auto elim!: evenE)
  have "(length ts - 1) * (length ts div 2) + (length ts - 1) * (length ts div 2)
          = length ts * (length ts - 1)"
    unfolding m by (simp add: algebra_simps)
  with return_leg_size[OF assms, of league leg1 "length ts - 1"] a show ?thesis
    unfolding leg1_def[symmetric] by simp
qed

lemma first_round_of_ten:
  "generateRoundMatches [a, b, c, d, e, f, g, h, i, j] 0
     = [\<lparr>Home = a, Away = b\<rparr>, \<lparr>Home = b, Away = j\<rparr>, \<lparr>Home = c, Away = i\<rparr>,
        \<lparr>Home = d, Away = h\<rparr>, \<lparr>Home = e, Away = g\<rparr>]"
  by (simp add: generateRoundMatches_def roundStep_def upt_rec Let_def)

text \<open>
  Claim C1. The claim is that the schedule of an \<open>N\<close>-team league has \<open>N * (N - 1)\<close>
  fixtures, that every pair of teams meets exactly twice and that every team plays
  \<open>2 * (N - 1)\<close> fixtures. For the ten teams of the Premier League the generated
  schedule does have 90 fixtures, but the rotation of \<open>generateRoundMatches\<close> pairs the
  first five teams of the slice over and over: the first team plays 26 fixtures and the
  sixth only 10 (instead of 18 each), the first and the second team meet four times, and
  the sixth and the seventh team never meet.
\<close>

theorem premier_schedule_unbalanced:
  "length premierSchedule = 90 \<and>
   fixturesOf 1 premierSchedule = 26 \<and>
   fixturesOf 6 premierSchedule = 10 \<and>
   fixturesBetween 1 2 premierSchedule = 4 \<and>
   fixturesBetween 6 7 premierSchedule = 0"
  by code_simp

subsection \<open>Next fixture and the cap on simultaneous matches\<close>

lemma firstHit_Some:
  "firstHit f xs = Some y \<Longrightarrow> \<exists>x \<in> set xs. f x = Some y"
  by (induction xs) (auto split: option.splits)

lemma withRefs_mem:
  "(ref, s) \<in> set (withRefs league schedules) \<Longrightarrow>
     fst ref = league \<and> snd ref < length schedules \<and> s = schedules ! snd ref"
  by (auto simp: withRefs_def)

lemma find_SomeD:
  "find P xs = Some x \<Longrightarrow> x \<in> set xs \<and> P x"
  by (induction xs) (auto split: if_splits)

lemma schedAt_withRefs:
  "seasonSchedules st league = Some schedules \<Longrightarrow> (ref, s) \<in> set (withRefs league schedules)
     \<Longrightarrow> schedAt st ref = Some s"
  by (auto simp: schedAt_def dest!: withRefs_mem)

lemma least_played_unplayed:
  assumes "getMatchForLeastPlayedTeams st = Some (ref, s)"
  shows "schedAt st ref = Some s \<and> \<not> sIsPlayed s"
proof -
  from assms obtain league schedules P where
    l: "seasonSchedules st league = Some schedules" and
    f: "find (\<lambda>(ref, schedule). \<not> sIsPlayed schedule \<and> P schedule) (withRefs league schedules)
          = Some (ref, s)"
    unfolding getMatchForLeastPlayedTeams_def Let_def
    by (auto dest!: firstHit_Some split: option.splits)
  from find_SomeD[OF f] l show ?thesis
    by (auto intro: schedAt_withRefs)
qed

lemma next_unplayed:
  assumes srt: "\<And>xs. set (srt xs) \<subseteq> set xs"
    and sel: "getNextUnplayedMatch srt st = Some (ref, s)"
  shows "schedAt st ref = Some s \<and> \<not> sIsPlayed s"
proof (cases "getMaximumMatchesPlayed st - getMinimumMatchesPlayed st > 2")
  case True
  show ?thesis
  proof (cases "getMatchForLeastPlayedTeams st")
    case (Some m)
    with True sel have "getMatchForLeastPlayedTeams st = Some (ref, s)"
      by (simp add: getNextUnplayedMatch_def Let_def)
    then show ?thesis by (rule least_played_unplayed)
  next
    case None
    with True sel obtain league schedules where
      l: "seasonSchedules st league = Some schedules" and
      f: "find (\<lambda>(ref, schedule). \<not> sIsPlayed schedule) (withRefs league schedules) = Some (ref, s)"
      by (auto simp: getNextUnplayedMatch_def Let_def dest!: firstHit_Some split: option.splits)
    from find_SomeD[OF f] l show ?thesis
      by (auto intro: schedAt_withRefs)
  qed
next
  case False
  with sel obtain league schedules P where
    l: "seasonSchedules st league = Some schedules" and
    f: "find P (srt (filter (\<lambda>(ref, schedule). \<not> sIsPlayed schedule) (withRefs league schedules)))
          = Some (ref, s)"
    by (auto simp: getNextUnplayedMatch_def Let_def dest!: firstHit_Some split: option.splits)
  from find_SomeD[OF f] srt
  have "(ref, s) \<in> set (filter (\<lambda>(ref, schedule). \<not> sIsPlayed schedule) (withRefs league schedules))"
    by blast
  with l show ?thesis
    by (auto intro: schedAt_withRefs)
qed

lemma count_update_le:
  "length (filter P (map snd (AList.update k v al)))
     \<le> length (filter P (map snd al)) + (if P v then 1 else 0)"
  by (induction al) auto

lemma markPlayed_matches: "matches (markPlayed ref c st) = matches st"
  by (simp add: markPlayed_def split: option.splits)

lemma createNextMatch_count:
  "leagueActiveCount (createNextMatch srt injuryTime now st) league
     \<le> max (leagueActiveCount st league) MaxSimultaneousMatches"
proof (cases "getNextUnplayedMatch srt st")
  case None
  then show ?thesis by (simp add: createNextMatch_def)
next
  case (Some p)
  obtain ref s where p: "p = (ref, s)" by (cases p)
  show ?thesis
  proof (cases "sIsPlayed s \<or> leagueActiveCount st (sLeague s) \<ge> MaxSimultaneousMatches")
    case True
    with Some p show ?thesis by (auto simp: createNextMatch_def)
  next
    case False
    let ?act = "\<lambda>match. (mStatus match = StatusLive \<or> mStatus match = StatusHalftime \<or>
                          mStatus match = StatusBreak) \<and> mCompetition match = league"
    from False Some p obtain m where
      eq: "matches (createNextMatch srt injuryTime now st)
             = AList.update (matchCounter st + 1) m (matches st)"
      and comp: "mCompetition m = sLeague s"
      by (simp add: createNextMatch_def Let_def markPlayed_matches)
    have "leagueActiveCount (createNextMatch srt injuryTime now st) league
            \<le> leagueActiveCount st league + (if ?act m then 1 else 0)"
      unfolding leagueActiveCount_def eq by (rule count_update_le)
    with False comp show ?thesis
      by (auto split: if_splits)
  qed
qed

text \<open>
  Claim C2. Whatever permutation \<open>sort.Slice\<close> produces: the fixture that
  \<open>getNextUnplayedMatch\<close> returns is a fixture of the schedule whose played flag is
  false; \<open>createNextMatch\<close> leaves the number of active (LIVE, HALFTIME or BREAK)
  matches of every league at or below the larger of its previous value and
  \<open>MaxSimultaneousMatches\<close>, so it never lifts a league above the cap; and when the
  league of the selected fixture is at the cap, \<open>createNextMatch\<close> returns the state
  unchanged (no match object is created, no fixture is marked).
\<close>

theorem next_fixture_unplayed_and_capped:
  assumes "\<And>xs. mset (srt xs) = mset xs"
  shows "(\<forall>ref s. getNextUnplayedMatch srt st = Some (ref, s) \<longrightarrow>
            schedAt st ref = Some s \<and> \<not> sIsPlayed s) \<and>
         (\<forall>league. leagueActiveCount (createNextMatch srt injuryTime now st) league
            \<le> max (leagueActiveCount st league) MaxSimultaneousMatches) \<and>
         (\<forall>ref s. getNextUnplayedMatch srt st = Some (ref, s) \<and>
            MaxSimultaneousMatches \<le> leagueActiveCount st (sLeague s) \<longrightarrow>
            createNextMatch srt injuryTime now st = st)"
proof -
  have sub: "\<And>xs. set (srt xs) \<subseteq> set xs"
    using assms by (metis set_mset_mset subset_refl)
  show ?thesis
    using next_unplayed[OF sub] createNextMatch_count
    by (auto simp: createNextMatch_def)
qed

lemma capState_selection:
  "getNextUnplayedMatch sortByMatchday capState = Some ((LeaguePremier, 1), capFixture)"
  by (simp add: getNextUnplayedMatch_def getMinimumMatchesPlayed_def getMaximumMatchesPlayed_def
      getTeamMatchesPlayed_def leagueOrder_def capState_def premierState_def emptyState_def
      premierTeam_def
      withRefs_def capFixture_def sortByMatchday_def upt_rec Let_def)

lemma capState_count: "leagueActiveCount capState LeaguePremier = 4"
  by (simp add: leagueActiveCount_def capState_def capMatch_def premierState_def emptyState_def)

theorem next_fixture_unplayed_and_capped_witness:
  "(\<forall>xs. mset (sortByMatchday xs) = mset xs) \<and>
   getNextUnplayedMatch sortByMatchday capState = Some ((LeaguePremier, 1), capFixture) \<and>
   schedAt capState (LeaguePremier, 1) = Some capFixture \<and> \<not> sIsPlayed capFixture \<and>
   MaxSimultaneousMatches \<le> leagueActiveCount capState (sLeague capFixture) \<and>
   createNextMatch sortByMatchday 3 1000 capState = capState \<and>
   leagueActiveCount (createNextMatch sortByMatchday 3 1000 capState) LeaguePremier
     \<le> max (leagueActiveCount capState LeaguePremier) MaxSimultaneousMatches"
proof -
  have perm: "\<And>xs. mset (sortByMatchday xs) = mset xs"
    by (simp add: sortByMatchday_def)
  have cap: "MaxSimultaneousMatches \<le> leagueActiveCount capState (sLeague capFixture)"
    by (simp add: capState_count capFixture_def MaxSimultaneousMatches_def)
  from next_fixture_unplayed_and_capped[OF perm, of capState 3 1000] capState_selection cap perm
  show ?thesis by auto
qed

subsection \<open>Match lifecycle\<close>

text \<open>
  What the lifecycle does when the ticks cooperate: a tick that reads the clock within
  the 46th second of a live match starts the halftime break, and the first tick after
  the end of the break resumes the match with its start time moved forward, so that the
  elapsed time at the resuming tick is the elapsed time at which the break began.
\<close>

lemma halftime_when_tick_in_window:
  assumes "mStatus m = StatusLive" "45 * second \<le> now - mStartTime m"
    "now - mStartTime m < 46 * second"
  shows "mStatus (engineTick m now) = StatusHalftime \<and> mMinute (engineTick m now) = 45 \<and>
         mIsInBreak (engineTick m now) \<and>
         mHalftimeEndTime (engineTick m now) = now + HalftimeBreakSeconds * second"
proof -
  from assms have "wholeSeconds (now - mStartTime m) = 45"
    by (simp add: wholeSeconds_def second_def)
  with assms show ?thesis
    by (simp add: engineTick_def updateLiveMatchWithBreaks_def Let_def)
qed

lemma resume_keeps_clock:
  assumes "mStatus m = StatusHalftime" "now > mHalftimeEndTime m"
  shows "mStatus (engineTick m now) = StatusLive \<and> \<not> mIsInBreak (engineTick m now) \<and>
         mMinute (engineTick m now) = mMinute m \<and>
         now - mStartTime (engineTick m now)
           = (mHalftimeEndTime m - HalftimeBreakSeconds * second) - mStartTime m"
  using assms by (simp add: engineTick_def updateLiveMatchWithBreaks_def Let_def)

text \<open>
  Claim C3. The claim is that, whatever the ticks, a live match that passes minute 45
  enters HALFTIME, and that after the break the minute counter goes on from 46 without
  skipping a minute. The engine ticks every two seconds and the halftime test is
  \<open>Minute >= 45 && Minute < 46\<close>. A match started at time 0 whose ticks fall at 42.5 s,
  44.5 s, 46.5 s and 48.5 s shows the minutes 42, 44, 46, 48 and stays LIVE throughout: it
  never has a halftime. A match whose ticks fall at 43.5 s, 45.5 s, ... does enter HALFTIME
  at minute 45, is resumed by the first tick after the 15 s break (at 61.5 s), and shows
  minute 47 at the next tick: minute 46 is never shown.
\<close>

theorem halftime_missed_between_ticks:
  "map (\<lambda>m. (mMinute m, mStatus m))
       (runTicks (kickoff 0 3) (map ms [42500, 44500, 46500, 48500]))
     = [(42, StatusLive), (44, StatusLive), (46, StatusLive), (48, StatusLive)] \<and>
   map (\<lambda>m. (mMinute m, mStatus m))
       (runTicks (kickoff 0 3) (map ms [43500, 45500, 47500, 59500, 61500, 63500]))
     = [(43, StatusLive), (45, StatusHalftime), (45, StatusHalftime), (45, StatusHalftime),
        (45, StatusLive), (47, StatusLive)]"
  by (simp add: kickoff_def ms_def engineTick_def updateLiveMatchWithBreaks_def
      wholeSeconds_def second_def MatchDurationSeconds_def HalftimeBreakSeconds_def
      finishMatch_def Let_def)

subsection \<open>Win, draw and loss probabilities\<close>

lemma strength_bounds: "0.4 \<le> calculateTeamStrength t \<and> calculateTeamStrength t \<le> 0.7"
  by (simp add: calculateTeamStrength_def Let_def)

lemma normalised_triple:
  fixes h d a :: real
  assumes "0 \<le> h" "0 \<le> d" "0 \<le> a" "0 < h + d + a"
  shows "0 \<le> h / (h + d + a) \<and> h / (h + d + a) \<le> 1 \<and>
         0 \<le> d / (h + d + a) \<and> d / (h + d + a) \<le> 1 \<and>
         0 \<le> a / (h + d + a) \<and> a / (h + d + a) \<le> 1 \<and>
         h / (h + d + a) + d / (h + d + a) + a / (h + d + a) = 1"
proof -
  let ?t = "h + d + a"
  have "h / ?t + d / ?t + a / ?t = ?t / ?t"
    by (simp only: add_divide_distrib)
  also have "\<dots> = 1" using assms(4) by simp
  finally have sum: "h / ?t + d / ?t + a / ?t = 1" .
  have "h \<le> ?t" "d \<le> ?t" "a \<le> ?t" using assms by simp_all
  with assms show ?thesis using sum
    by (auto simp: divide_le_eq)
qed

lemma baseline_probabilities:
  assumes "calculateMatchProbabilities homeTeam awayTeam = (homeWin, draw, awayWin)"
  shows "0 \<le> homeWin \<and> homeWin \<le> 1 \<and> 0 \<le> draw \<and> draw \<le> 1 \<and>
         0 \<le> awayWin \<and> awayWin \<le> 1 \<and> homeWin + draw + awayWin = 1"
proof -
  define hs where "hs = calculateTeamStrength homeTeam * 1.1"
  define as where "as = calculateTeamStrength awayTeam"
  define h where "h = hs / (hs + as)"
  define a where "a = as / (hs + as)"
  define d where "d = 0.3 * (1.0 - \<bar>h - a\<bar>)"
  have hs: "0 < hs" using strength_bounds[of homeTeam] by (simp add: hs_def)
  have as: "0 < as" using strength_bounds[of awayTeam] by (simp add: as_def)
  have h0: "0 \<le> h" "h \<le> 1" using hs as by (simp_all add: h_def)
  have a0: "0 \<le> a" "a \<le> 1" using hs as by (simp_all add: a_def)
  have ha: "h + a = 1" using hs as by (simp add: h_def a_def add_divide_distrib[symmetric])
  have d0: "0 \<le> d" using h0 a0 ha by (simp add: d_def abs_le_iff)
  have pos: "0 < h + d + a" using ha d0 by linarith
  have "calculateMatchProbabilities homeTeam awayTeam
          = (h / (h + d + a), d / (h + d + a), a / (h + d + a))"
    unfolding calculateMatchProbabilities_def Let_def h_def a_def d_def hs_def as_def
    by (rule refl)
  with assms have eq: "homeWin = h / (h + d + a)" "draw = d / (h + d + a)"
    "awayWin = a / (h + d + a)"
    by simp_all
  show ?thesis unfolding eq using normalised_triple[OF h0(1) d0 a0(1) pos] by simp
qed

lemma adjusted_probabilities:
  assumes "adjustedProbabilities baseHomeWin baseAwayWin totalAdjustment = (homeWin, draw, awayWin)"
  shows "0 \<le> homeWin \<and> homeWin \<le> 1 \<and> 0 \<le> draw \<and> draw \<le> 1 \<and>
         0 \<le> awayWin \<and> awayWin \<le> 1 \<and> homeWin + draw + awayWin = 1"
proof -
  define H where "H = max 0.05 (min 0.9 (baseHomeWin + totalAdjustment))"
  define A where "A = max 0.05 (min 0.9 (baseAwayWin - totalAdjustment))"
  define D where "D = max 0.05 (1.0 - H - A)"
  have "adjustedProbabilities baseHomeWin baseAwayWin totalAdjustment
          = (H / (H + D + A), D / (H + D + A), A / (H + D + A))"
    unfolding adjustedProbabilities_def Let_def H_def A_def D_def by (rule refl)
  with assms have eq: "homeWin = H / (H + D + A)" "draw = D / (H + D + A)"
    "awayWin = A / (H + D + A)"
    by simp_all
  have "0.05 \<le> H" "0.05 \<le> D" "0.05 \<le> A"
    unfolding H_def A_def D_def by (rule max.cobounded1)+
  then have pos: "0 \<le> H" "0 \<le> D" "0 \<le> A" "0 < H + D + A"
    by simp_all
  show ?thesis unfolding eq using normalised_triple[OF pos] by simp
qed

lemma recalculated_probabilities:
  "\<exists>p. dynamicProbabilities (recalculateMatchProbabilities matchID match st) matchID = Some p \<and>
       0 \<le> HomeWinProbability p \<and> HomeWinProbability p \<le> 1 \<and>
       0 \<le> DrawProbability p \<and> DrawProbability p \<le> 1 \<and>
       0 \<le> AwayWinProbability p \<and> AwayWinProbability p \<le> 1 \<and>
       HomeWinProbability p + DrawProbability p + AwayWinProbability p = 1"
proof -
  obtain sa pd ma tm where f: "probabilityFactors st matchID match = (sa, pd, ma, tm)"
    by (cases "probabilityFactors st matchID match")
  obtain h d a where
    adj: "adjustedProbabilities
            (fst (calculateMatchProbabilities (mHomeTeam match) (mAwayTeam match)))
            (snd (snd (calculateMatchProbabilities (mHomeTeam match) (mAwayTeam match))))
            ((sa + pd + ma) * tm) = (h, d, a)"
    using prod_cases3 by blast
  show ?thesis
    using adjusted_probabilities[OF adj]
    by (simp add: recalculateMatchProbabilities_def Let_def f adj)
qed

text \<open>
  Claim C6. After \<open>recalculateMatchProbabilities\<close> the match has a probability entry
  whose home-win, draw and away-win values each lie in \<open>[0, 1]\<close> and sum to 1 within
  \<open>10^-6\<close>; the same holds for the three values that \<open>calculateMatchProbabilities\<close>
  returns for any two teams (the baseline stored at match creation). In the model, where
  \<open>float64\<close> is the reals, the sums are exactly 1 (lemmas \<open>recalculated_probabilities\<close>
  and \<open>baseline_probabilities\<close>); the tolerance of the claim is what absorbs the
  rounding of the machine arithmetic, which the model does not represent.
\<close>

theorem probabilities_in_range_and_normalised:
  "(\<exists>p. dynamicProbabilities (recalculateMatchProbabilities matchID match st) matchID = Some p \<and>
        0 \<le> HomeWinProbability p \<and> HomeWinProbability p \<le> 1 \<and>
        0 \<le> DrawProbability p \<and> DrawProbability p \<le> 1 \<and>
        0 \<le> AwayWinProbability p \<and> AwayWinProbability p \<le> 1 \<and>
        \<bar>HomeWinProbability p + DrawProbability p + AwayWinProbability p - 1\<bar> \<le> 1 / 10 ^ 6) \<and>
   (case calculateMatchProbabilities homeTeam awayTeam of
      (homeWin, draw, awayWin) \<Rightarrow>
        0 \<le> homeWin \<and> homeWin \<le> 1 \<and> 0 \<le> draw \<and> draw \<le> 1 \<and>
        0 \<le> awayWin \<and> awayWin \<le> 1 \<and> \<bar>homeWin + draw + awayWin - 1\<bar> \<le> 1 / 10 ^ 6)"
proof -
  obtain p where
    "dynamicProbabilities (recalculateMatchProbabilities matchID match st) matchID = Some p"
    "0 \<le> HomeWinProbability p" "HomeWinProbability p \<le> 1"
    "0 \<le> DrawProbability p" "DrawProbability p \<le> 1"
    "0 \<le> AwayWinProbability p" "AwayWinProbability p \<le> 1"
    "HomeWinProbability p + DrawProbability p + AwayWinProbability p = 1"
    using recalculated_probabilities by blast
  then have first: "\<exists>p. dynamicProbabilities (recalculateMatchProbabilities matchID match st) matchID
        = Some p \<and>
        0 \<le> HomeWinProbability p \<and> HomeWinProbability p \<le> 1 \<and>
        0 \<le> DrawProbability p \<and> DrawProbability p \<le> 1 \<and>
        0 \<le> AwayWinProbability p \<and> AwayWinProbability p \<le> 1 \<and>
        \<bar>HomeWinProbability p + DrawProbability p + AwayWinProbability p - 1\<bar> \<le> 1 / 10 ^ 6"
    by simp
  obtain h d a where b: "calculateMatchProbabilities homeTeam awayTeam = (h, d, a)"
    using prod_cases3 by blast
  from baseline_probabilities[OF b] have
    "0 \<le> h \<and> h \<le> 1 \<and> 0 \<le> d \<and> d \<le> 1 \<and> 0 \<le> a \<and> a \<le> 1 \<and> \<bar>h + d + a - 1\<bar> \<le> 1 / 10 ^ 6"
    by simp
  with first b show ?thesis by simp
qed

subsection \<open>Momentum\<close>

lemma momentum_bounds:
  "\<exists>m. matchMomentum (updateMatchMomentum matchID match eventType affectedTeamID st) matchID
          = Some m \<and>
       - 1 \<le> HomeTeamMomentum m \<and> HomeTeamMomentum m \<le> 1 \<and>
       - 1 \<le> AwayTeamMomentum m \<and> AwayTeamMomentum m \<le> 1"
  by (simp add: updateMatchMomentum_def clampMomentum_def Let_def)

lemma created_momentum:
  "createNextMatch srt injuryTime now st = st \<or>
   (\<exists>m. matchMomentum (createNextMatch srt injuryTime now st) (matchCounter st + 1) = Some m \<and>
        HomeTeamMomentum m = 0 \<and> AwayTeamMomentum m = 0)"
proof (cases "createNextMatch srt injuryTime now st = st")
  case False
  then obtain ref s where "getNextUnplayedMatch srt st = Some (ref, s)" "\<not> sIsPlayed s"
     "\<not> leagueActiveCount st (sLeague s) \<ge> MaxSimultaneousMatches"
    by (auto simp: createNextMatch_def split: option.splits if_splits)
  then show ?thesis
    by (simp add: createNextMatch_def Let_def)
qed simp

text \<open>
  Claim C8. Whatever the event type, the affected team and the state before, the
  momentum entry of the match after \<open>updateMatchMomentum\<close> has both scalars in
  \<open>[-1, 1]\<close>; and the entry that \<open>createNextMatch\<close> stores for a new match (under the
  new value of the match counter) has both scalars 0. The bounds come from the final
  \<open>max\<close>/\<open>min\<close> alone and do not depend on the value of the sums before it.
\<close>

theorem momentum_within_unit_interval:
  "(\<exists>m. matchMomentum (updateMatchMomentum matchID match eventType affectedTeamID st) matchID
           = Some m \<and>
        - 1 \<le> HomeTeamMomentum m \<and> HomeTeamMomentum m \<le> 1 \<and>
        - 1 \<le> AwayTeamMomentum m \<and> AwayTeamMomentum m \<le> 1) \<and>
   (createNextMatch srt injuryTime now st = st \<or>
    (\<exists>m. matchMomentum (createNextMatch srt injuryTime now st) (matchCounter st + 1) = Some m \<and>
         HomeTeamMomentum m = 0 \<and> AwayTeamMomentum m = 0))"
  using momentum_bounds created_momentum by blast

text \<open>
  Claim C7, as stated: every update adds exactly the delta pair of the specification's
  table, corners and fouls moving both teams symmetrically. It fails on the code twice.
  A corner for the home team at momentum \<open>(0, 0)\<close> gives \<open>(0.1, 0)\<close>, not
  \<open>(0.1, -0.1)\<close>: the opponent is not touched. A home goal at momentum \<open>(0.9, 0)\<close>
  gives \<open>(1, -0.2)\<close>, not \<open>(1.2, -0.2)\<close>: the result is clamped.
\<close>

theorem momentum_delta_counterexample:
  "momentumOf (updateMatchMomentum 1 (kickoff 0 3) ''corner'' 1 emptyState) 1
     \<noteq> claimedMomentum ''corner'' True (momentumOf emptyState 1) \<and>
   momentumOf (updateMatchMomentum 1 (kickoff 0 3) ''goal'' 1 highMomentumState) 1
     \<noteq> claimedMomentum ''goal'' True (momentumOf highMomentumState 1)"
  by (simp add: momentumOf_def updateMatchMomentum_def adjustMomentum_def clampMomentum_def
      claimedMomentum_def claimedDelta_def kickoff_def emptyState_def highMomentumState_def
      zeroMomentum_def Let_def)

text \<open>
  Claim C7, amended. \<open>updateMatchMomentum\<close> adds the fixed delta pair of the event type
  and then clamps each scalar to \<open>[-1, 1]\<close>: goal \<open>+0.3\<close> for the scoring team and
  \<open>-0.2\<close> for the opponent, red card \<open>-0.4\<close> for the carded team and \<open>+0.2\<close> for the
  opponent, corner \<open>+0.1\<close> for the team awarded the corner only, foul \<open>-0.05\<close> for the
  fouling team only; any other event type adds nothing.
\<close>

theorem momentum_update_adds_delta_and_clamps:
  "momentumOf (updateMatchMomentum matchID match eventType affectedTeamID st) matchID
   = amendedMomentum eventType (affectedTeamID = tID (mHomeTeam match)) (momentumOf st matchID)"
proof -
  define m where "m = (case matchMomentum st matchID of None \<Rightarrow> zeroMomentum | Some m \<Rightarrow> m)"
  define m1 where "m1 = adjustMomentum match eventType affectedTeamID m"
  have old: "momentumOf st matchID = (HomeTeamMomentum m, AwayTeamMomentum m)"
    by (simp add: momentumOf_def m_def zeroMomentum_def split: option.splits)
  have new: "momentumOf (updateMatchMomentum matchID match eventType affectedTeamID st) matchID
               = (clampUnit (HomeTeamMomentum m1), clampUnit (AwayTeamMomentum m1))"
    by (simp add: momentumOf_def updateMatchMomentum_def clampMomentum_def clampUnit_def
        Let_def m_def m1_def)
  have adj: "(HomeTeamMomentum m1, AwayTeamMomentum m1)
               = (if affectedTeamID = tID (mHomeTeam match)
                  then (HomeTeamMomentum m + fst (amendedDelta eventType),
                        AwayTeamMomentum m + snd (amendedDelta eventType))
                  else (HomeTeamMomentum m + snd (amendedDelta eventType),
                        AwayTeamMomentum m + fst (amendedDelta eventType)))"
    by (simp add: m1_def adjustMomentum_def amendedDelta_def Let_def)
  show ?thesis
    unfolding new old using adj
    by (simp add: amendedMomentum_def split: if_splits)
qed

subsection \<open>Goal events\<close>

text \<open>The scorer that \<open>goalScorer\<close> finds plays for one of the two teams of the match:
  the fallback search only looks at the attacking team, and the possessor is covered by
  the hypothesis on the ball.\<close>

lemma nearestStep_team:
  assumes "\<forall>r. fst acc = Some r \<longrightarrow> pTeamID (player_heap st r) = t"
  shows "\<forall>r. fst (nearestStep st t ball acc entry) = Some r \<longrightarrow> pTeamID (player_heap st r) = t"
  using assms
  by (cases acc; cases entry) (auto simp: nearestStep_def Let_def split: option.splits)

lemma nearest_fold_team:
  assumes "\<forall>r. fst acc = Some r \<longrightarrow> pTeamID (player_heap st r) = t"
  shows "\<forall>r. fst (foldl (nearestStep st t ball) acc locations) = Some r
           \<longrightarrow> pTeamID (player_heap st r) = t"
  using assms
proof (induction locations arbitrary: acc)
  case Nil
  then show ?case by simp
next
  case (Cons entry locations)
  show ?case
    using Cons.IH[OF nearestStep_team[OF Cons.prems]] by simp
qed

lemma findNearest_team:
  assumes "findNearestAttackingPlayer st matchID ball = Some r"
    and "map_of (matches st) matchID = Some match"
  shows "pTeamID (player_heap st r) = tID (mHomeTeam match) \<or>
         pTeamID (player_heap st r) = tID (mAwayTeam match)"
proof -
  from assms obtain locations t where
    t: "t = tID (mHomeTeam match) \<or> t = tID (mAwayTeam match)" and
    f: "fst (foldl (nearestStep st t ball) (None, None) locations) = Some r"
    by (auto simp: findNearestAttackingPlayer_def Let_def split: option.splits if_splits)
  have "pTeamID (player_heap st r) = t"
    using nearest_fold_team[of "(None, None)" st t ball locations] f by simp
  with t show ?thesis by auto
qed

lemma goalScorer_team:
  assumes sc: "goalScorer shoots matchID st ball = Some scorer"
    and stored: "map_of (matches st) matchID = Some match"
    and poss: "\<forall>r. map_of (players st) (bPossessorID ball) = Some r \<longrightarrow>
                 pTeamID (player_heap st r) = tID (mHomeTeam match) \<or>
                 pTeamID (player_heap st r) = tID (mAwayTeam match)"
  shows "pTeamID (player_heap st scorer) = tID (mHomeTeam match) \<or>
         pTeamID (player_heap st scorer) = tID (mAwayTeam match)"
  using sc poss findNearest_team[OF _ stored]
  by (auto simp: goalScorer_def Let_def split: option.splits if_splits)

text \<open>The assister is another player than the scorer, because the players are stored
  under their own IDs.\<close>

lemma goalAssister_facts:
  assumes keys: "\<forall>(k, r) \<in> set (players st). pID (player_heap st r) = k"
    and a: "goalAssister st ball scorer = Some assister"
  shows "assister \<noteq> scorer \<and> map_of (players st) (bLastTouchID ball) = Some assister \<and>
         pTeamID (player_heap st assister) = pTeamID (player_heap st scorer)"
proof -
  from a have l: "map_of (players st) (bLastTouchID ball) = Some assister"
    and ne: "bLastTouchID ball \<noteq> pID (player_heap st scorer)"
    and team: "pTeamID (player_heap st assister) = pTeamID (player_heap st scorer)"
    by (auto simp: goalAssister_def split: if_splits option.splits)
  from l have "(bLastTouchID ball, assister) \<in> set (players st)" by (rule map_of_SomeD)
  with keys have "pID (player_heap st assister) = bLastTouchID ball" by auto
  with ne have "assister \<noteq> scorer" by auto
  with l team show ?thesis by simp
qed

lemma goalAssister_creditGoal:
  "goalAssister (storeMatch matchID match match1 st
       \<lparr>player_heap := (player_heap st)(scorer := creditGoal (player_heap st scorer))\<rparr>)
     ball scorer = goalAssister st ball scorer"
  by (auto simp: goalAssister_def creditGoal_def storeMatch_def split: option.splits)

lemma heap_storeMatch: "player_heap (storeMatch matchID match match1 st) = player_heap st"
  by (simp add: storeMatch_def)

lemma heap_updateMatchMomentum:
  "player_heap (updateMatchMomentum matchID match e t st) = player_heap st"
  by (simp add: updateMatchMomentum_def Let_def)

lemma heap_recalculate:
  "player_heap (recalculateMatchProbabilities matchID match st) = player_heap st"
  by (simp add: recalculateMatchProbabilities_def Let_def split: prod.splits)

text \<open>What the booking of a goal leaves alone.\<close>

lemma frame_updateMatchMomentum:
  "players (updateMatchMomentum matchID match e t st) = players st \<and>
   matches (updateMatchMomentum matchID match e t st) = matches st \<and>
   playerLocations (updateMatchMomentum matchID match e t st) = playerLocations st \<and>
   ballPositions (updateMatchMomentum matchID match e t st) = ballPositions st"
  by (simp add: updateMatchMomentum_def Let_def)

lemma frame_recalculate:
  "players (recalculateMatchProbabilities matchID match st) = players st \<and>
   matches (recalculateMatchProbabilities matchID match st) = matches st \<and>
   playerLocations (recalculateMatchProbabilities matchID match st) = playerLocations st \<and>
   ballPositions (recalculateMatchProbabilities matchID match st) = ballPositions st"
  by (simp add: recalculateMatchProbabilities_def Let_def split: prod.splits)

lemma bookGoal_match:
  "fst (bookGoal matchID match ball scorer st)
     = (if pTeamID (player_heap st scorer) = tID (mHomeTeam match)
        then match\<lparr>mHomeScore := mHomeScore match + 1\<rparr>
        else match\<lparr>mAwayScore := mAwayScore match + 1\<rparr>)"
  by (simp add: bookGoal_def Let_def)

lemma bookGoal_heap:
  "player_heap (snd (bookGoal matchID match ball scorer st))
     = (case goalAssister st ball scorer of
          None \<Rightarrow> (player_heap st)(scorer := creditGoal (player_heap st scorer))
        | Some assister \<Rightarrow>
            ((player_heap st)(scorer := creditGoal (player_heap st scorer)))
              (assister := creditAssist
                 (((player_heap st)(scorer := creditGoal (player_heap st scorer))) assister)))"
  by (simp add: bookGoal_def Let_def goalAssister_creditGoal heap_storeMatch
      heap_recalculate heap_updateMatchMomentum split: option.splits)

lemma bookGoal_frame:
  "players (snd (bookGoal matchID match ball scorer st)) = players st \<and>
   playerLocations (snd (bookGoal matchID match ball scorer st)) = playerLocations st \<and>
   ballPositions (snd (bookGoal matchID match ball scorer st)) = ballPositions st \<and>
   matches (snd (bookGoal matchID match ball scorer st))
     = matches (storeMatch matchID match (fst (bookGoal matchID match ball scorer st)) st)"
  by (simp add: bookGoal_def Let_def frame_recalculate frame_updateMatchMomentum
      storeMatch_def split: option.splits)

lemma bookGoal_teams:
  "pTeamID (player_heap (snd (bookGoal matchID match ball scorer st)) r)
     = pTeamID (player_heap st r)"
  unfolding bookGoal_heap
  by (simp add: creditGoal_def creditAssist_def split: option.splits)

lemma bookGoal_rosters:
  "getPlayersFromTeam (snd (bookGoal matchID match ball scorer st)) t = getPlayersFromTeam st t"
  by (simp add: getPlayersFromTeam_def bookGoal_teams bookGoal_frame)

text \<open>
  The repositioning changes the ball and the locations only. With a stored match it
  returns when both teams have eleven players and the match has a location map, and
  panics otherwise.
\<close>

lemma reposition_frame:
  assumes "repositionPlayersForEvent repos matchID e x y st = Inr st'"
  shows "player_heap st' = player_heap st \<and> players st' = players st \<and>
         matches st' = matches st \<and> matchStats st' = matchStats st \<and>
         playerAvailability st' = playerAvailability st \<and>
         ballPositions st' = ballPositions st"
  using assms
  by (auto simp: repositionPlayersForEvent_def split: option.splits if_splits sum.splits)

lemma setBallEvent_frame:
  assumes "setBallEvent repos matchID e x y p st = Inr st'"
  shows "player_heap st' = player_heap st \<and> players st' = players st \<and>
         matches st' = matches st \<and> matchStats st' = matchStats st \<and>
         playerAvailability st' = playerAvailability st"
proof (cases "ballPositions st matchID")
  case None
  with assms show ?thesis by (simp add: setBallEvent_def)
next
  case (Some ball)
  with assms show ?thesis
    by (auto simp: setBallEvent_def dest!: reposition_frame)
qed

lemma rosters_ball_update:
  "getPlayersFromTeam (st\<lparr>ballPositions := b\<rparr>) t = getPlayersFromTeam st t"
  by (simp add: getPlayersFromTeam_def)

lemma setBallEvent_returns:
  assumes "map_of (matches st) matchID = Some match"
    and "11 \<le> length (getPlayersFromTeam st (tID (mHomeTeam match)))"
    and "11 \<le> length (getPlayersFromTeam st (tID (mAwayTeam match)))"
    and "playerLocations st matchID \<noteq> None"
  shows "\<exists>st'. setBallEvent repos matchID e x y p st = Inr st'"
  using assms
  by (auto simp: setBallEvent_def repositionPlayersForEvent_def firstEleven_def
      rosters_ball_update Let_def split: option.splits)

lemma setBallEvent_panics:
  assumes "ballPositions st matchID \<noteq> None"
    and "map_of (matches st) matchID = Some match"
    and "e \<in> set repositionedEvents"
    and "\<not> (11 \<le> length (getPlayersFromTeam st (tID (mHomeTeam match))) \<and>
            11 \<le> length (getPlayersFromTeam st (tID (mAwayTeam match))) \<and>
            playerLocations st matchID \<noteq> None)"
  shows "\<exists>err. setBallEvent repos matchID e x y p st = Inl err"
  using assms
  by (auto simp: setBallEvent_def repositionPlayersForEvent_def firstEleven_def
      rosters_ball_update Let_def split: option.splits)

text \<open>\<open>handleGoalEvent\<close> is the booking followed by the kickoff: it returns, with the
  booked match and the booked players, exactly when the kickoff repositioning
  returns.\<close>

lemma stored_after_goal:
  assumes "map_of (matches st) matchID = Some match"
  shows "map_of (matches (snd (bookGoal matchID match ball scorer st))) matchID
           = Some (fst (bookGoal matchID match ball scorer st))"
  using assms by (simp add: bookGoal_frame storeMatch_def update_conv')

lemma goal_event_run:
  assumes "ballPositions st matchID = Some ball"
    and "goalScorer shoots matchID st ball = Some scorer"
  shows "handleGoalEvent repos shoots matchID match st
           = (case setBallEvent repos matchID BallEventKickoff (FieldWidth / 2)
                     (FieldHeight / 2) 0 (snd (bookGoal matchID match ball scorer st)) of
                Inl e \<Rightarrow> Inl e
              | Inr st5 \<Rightarrow> Inr (fst (bookGoal matchID match ball scorer st), st5))"
  using assms
  by (cases "bookGoal matchID match ball scorer st") (simp add: handleGoalEvent_def cong: sum.case_cong)

lemma goal_event_returns:
  assumes ball: "ballPositions st matchID = Some ball"
    and scorer: "goalScorer shoots matchID st ball = Some scorer"
    and stored: "map_of (matches st) matchID = Some match"
    and full: "11 \<le> length (getPlayersFromTeam st (tID (mHomeTeam match)))"
      "11 \<le> length (getPlayersFromTeam st (tID (mAwayTeam match)))"
      "playerLocations st matchID \<noteq> None"
  shows "\<exists>st5. handleGoalEvent repos shoots matchID match st
                  = Inr (fst (bookGoal matchID match ball scorer st), st5) \<and>
               player_heap st5 = player_heap (snd (bookGoal matchID match ball scorer st)) \<and>
               matches st5 = matches (snd (bookGoal matchID match ball scorer st))"
proof -
  let ?st4 = "snd (bookGoal matchID match ball scorer st)"
  have "\<exists>st5. setBallEvent repos matchID BallEventKickoff
                 (FieldWidth / 2) (FieldHeight / 2) 0 ?st4 = Inr st5"
    apply (rule setBallEvent_returns[OF stored_after_goal[OF stored]])
    using full by (simp_all add: bookGoal_match bookGoal_rosters bookGoal_frame)
  then obtain st5 where
    set: "setBallEvent repos matchID BallEventKickoff
            (FieldWidth / 2) (FieldHeight / 2) 0 ?st4 = Inr st5"
    by blast
  from setBallEvent_frame[OF set] goal_event_run[OF ball scorer, of repos match] set
  show ?thesis by simp
qed

lemma goal_event_panics:
  assumes ball: "ballPositions st matchID = Some ball"
    and scorer: "goalScorer shoots matchID st ball = Some scorer"
    and stored: "map_of (matches st) matchID = Some match"
    and short: "\<not> (11 \<le> length (getPlayersFromTeam st (tID (mHomeTeam match))) \<and>
                   11 \<le> length (getPlayersFromTeam st (tID (mAwayTeam match))) \<and>
                   playerLocations st matchID \<noteq> None)"
  shows "\<exists>err. handleGoalEvent repos shoots matchID match st = Inl err"
proof -
  let ?st4 = "snd (bookGoal matchID match ball scorer st)"
  have "\<exists>err. setBallEvent repos matchID BallEventKickoff
                 (FieldWidth / 2) (FieldHeight / 2) 0 ?st4 = Inl err"
    apply (rule setBallEvent_panics[OF _ stored_after_goal[OF stored]])
    using ball short
    by (simp_all add: repositionedEvents_def bookGoal_match bookGoal_rosters bookGoal_frame)
  then show ?thesis
    unfolding goal_event_run[OF ball scorer] by auto
qed

text \<open>
  Claim C9. Take a state in which every player is stored under his own ID, the match
  object is the one stored under the match ID, and the player in possession of the
  ball, if any, plays for one of the two teams.

  If the match has no ball or no scorer is found, \<open>handleGoalEvent\<close> returns with the
  match and the state unchanged.

  If a scorer is found, both teams have at least eleven players and the match has a
  location map, \<open>handleGoalEvent\<close> returns and the match object it has written is the
  stored one. Exactly one score has gone up by one, the home score if the scorer plays
  for the home team and the away score if he plays for the away team; the scorer's goals
  (career and season) have gone up by one and nobody else's goals have changed; and
  either nobody's assists have changed, or the assists of exactly one player have gone
  up by one, and that player is the last toucher of the ball, is on the scorer's team
  and is not the scorer.

  If a scorer is found and a team has fewer than eleven players or the match has no
  location map, the run ends in the panic of the kickoff repositioning.
\<close>

theorem goal_event_one_score_one_scorer:
  assumes keys: "\<forall>(k, r) \<in> set (players st). pID (player_heap st r) = k"
    and stored: "map_of (matches st) matchID = Some match"
    and poss: "\<forall>ball r. ballPositions st matchID = Some ball \<longrightarrow>
                 map_of (players st) (bPossessorID ball) = Some r \<longrightarrow>
                 pTeamID (player_heap st r) = tID (mHomeTeam match) \<or>
                 pTeamID (player_heap st r) = tID (mAwayTeam match)"
  shows "case ballPositions st matchID of
           None \<Rightarrow> handleGoalEvent repos shoots matchID match st = Inr (match, st)
         | Some ball \<Rightarrow>
             (case goalScorer shoots matchID st ball of
                None \<Rightarrow> handleGoalEvent repos shoots matchID match st = Inr (match, st)
              | Some scorer \<Rightarrow>
                  if 11 \<le> length (getPlayersFromTeam st (tID (mHomeTeam match))) \<and>
                     11 \<le> length (getPlayersFromTeam st (tID (mAwayTeam match))) \<and>
                     playerLocations st matchID \<noteq> None
                  then
                    \<exists>match' st'.
                      handleGoalEvent repos shoots matchID match st = Inr (match', st') \<and>
                      map_of (matches st') matchID = Some match' \<and>
                      ((pTeamID (player_heap st scorer) = tID (mHomeTeam match) \<and>
                        mHomeScore match' = mHomeScore match + 1 \<and>
                        mAwayScore match' = mAwayScore match) \<or>
                       (pTeamID (player_heap st scorer) = tID (mAwayTeam match) \<and>
                        mHomeScore match' = mHomeScore match \<and>
                        mAwayScore match' = mAwayScore match + 1)) \<and>
                      Goals (player_heap st' scorer) = Goals (player_heap st scorer) + 1 \<and>
                      GoalsThisSeason (SeasonStats (player_heap st' scorer))
                        = GoalsThisSeason (SeasonStats (player_heap st scorer)) + 1 \<and>
                      (\<forall>q. q \<noteq> scorer \<longrightarrow>
                         Goals (player_heap st' q) = Goals (player_heap st q) \<and>
                         GoalsThisSeason (SeasonStats (player_heap st' q))
                           = GoalsThisSeason (SeasonStats (player_heap st q))) \<and>
                      (case goalAssister st ball scorer of
                         None \<Rightarrow> \<forall>q. Assists (player_heap st' q) = Assists (player_heap st q)
                       | Some assister \<Rightarrow>
                           assister \<noteq> scorer \<and>
                           map_of (players st) (bLastTouchID ball) = Some assister \<and>
                           pTeamID (player_heap st assister) = pTeamID (player_heap st scorer) \<and>
                           Assists (player_heap st' assister)
                             = Assists (player_heap st assister) + 1 \<and>
                           (\<forall>q. q \<noteq> assister \<longrightarrow>
                              Assists (player_heap st' q) = Assists (player_heap st q)))
                  else \<exists>err. handleGoalEvent repos shoots matchID match st = Inl err)"
proof (cases "ballPositions st matchID")
  case None
  then show ?thesis by (simp add: handleGoalEvent_def)
next
  case (Some ball)
  show ?thesis
  proof (cases "goalScorer shoots matchID st ball")
    case None
    with Some show ?thesis by (simp add: handleGoalEvent_def)
  next
    case scorer: (Some scorer)
    show ?thesis
    proof (cases "11 \<le> length (getPlayersFromTeam st (tID (mHomeTeam match))) \<and>
                  11 \<le> length (getPlayersFromTeam st (tID (mAwayTeam match))) \<and>
                  playerLocations st matchID \<noteq> None")
      case False
      have panic: "\<exists>err. handleGoalEvent repos shoots matchID match st = Inl err"
        by (rule goal_event_panics[OF Some scorer stored False])
      show ?thesis
        by (simp only: Some scorer option.case if_not_P[OF False] panic)
    next
      case True
      define match1 where "match1 = fst (bookGoal matchID match ball scorer st)"
      from True goal_event_returns[OF Some scorer stored, of repos] obtain st5 where
        res: "handleGoalEvent repos shoots matchID match st = Inr (match1, st5)" and
        heap5: "player_heap st5 = player_heap (snd (bookGoal matchID match ball scorer st))" and
        m5: "matches st5 = matches (snd (bookGoal matchID match ball scorer st))"
        unfolding match1_def by blast
      have stored5: "map_of (matches st5) matchID = Some match1"
        unfolding m5 match1_def by (rule stored_after_goal[OF stored])
      have team: "pTeamID (player_heap st scorer) = tID (mHomeTeam match) \<or>
                  pTeamID (player_heap st scorer) = tID (mAwayTeam match)"
        using goalScorer_team[OF scorer stored] poss Some by blast
      have score: "(pTeamID (player_heap st scorer) = tID (mHomeTeam match) \<and>
                    mHomeScore match1 = mHomeScore match + 1 \<and>
                    mAwayScore match1 = mAwayScore match) \<or>
                   (pTeamID (player_heap st scorer) = tID (mAwayTeam match) \<and>
                    mHomeScore match1 = mHomeScore match \<and>
                    mAwayScore match1 = mAwayScore match + 1)"
        using team unfolding match1_def bookGoal_match by auto
      have heap: "player_heap st5
           = (case goalAssister st ball scorer of
                None \<Rightarrow> (player_heap st)(scorer := creditGoal (player_heap st scorer))
              | Some assister \<Rightarrow>
                  ((player_heap st)(scorer := creditGoal (player_heap st scorer)))
                    (assister := creditAssist
                       (((player_heap st)(scorer := creditGoal (player_heap st scorer))) assister)))"
        unfolding heap5 by (rule bookGoal_heap)
      have credits: "Goals (player_heap st5 scorer) = Goals (player_heap st scorer) + 1 \<and>
            GoalsThisSeason (SeasonStats (player_heap st5 scorer))
              = GoalsThisSeason (SeasonStats (player_heap st scorer)) + 1 \<and>
            (\<forall>q. q \<noteq> scorer \<longrightarrow>
               Goals (player_heap st5 q) = Goals (player_heap st q) \<and>
               GoalsThisSeason (SeasonStats (player_heap st5 q))
                 = GoalsThisSeason (SeasonStats (player_heap st q))) \<and>
            (case goalAssister st ball scorer of
               None \<Rightarrow> \<forall>q. Assists (player_heap st5 q) = Assists (player_heap st q)
             | Some assister \<Rightarrow>
                 assister \<noteq> scorer \<and>
                 map_of (players st) (bLastTouchID ball) = Some assister \<and>
                 pTeamID (player_heap st assister) = pTeamID (player_heap st scorer) \<and>
                 Assists (player_heap st5 assister)
                   = Assists (player_heap st assister) + 1 \<and>
                 (\<forall>q. q \<noteq> assister \<longrightarrow>
                    Assists (player_heap st5 q) = Assists (player_heap st q)))"
      proof (cases "goalAssister st ball scorer")
        case None
        with heap show ?thesis by (simp add: creditGoal_def)
      next
        case assist: (Some assister)
        note facts = goalAssister_facts[OF keys assist]
        with heap assist show ?thesis
          by (simp add: creditGoal_def creditAssist_def)
      qed
      have goal: "\<exists>match' st'.
              handleGoalEvent repos shoots matchID match st = Inr (match', st') \<and>
              map_of (matches st') matchID = Some match' \<and>
              ((pTeamID (player_heap st scorer) = tID (mHomeTeam match) \<and>
                mHomeScore match' = mHomeScore match + 1 \<and>
                mAwayScore match' = mAwayScore match) \<or>
               (pTeamID (player_heap st scorer) = tID (mAwayTeam match) \<and>
                mHomeScore match' = mHomeScore match \<and>
                mAwayScore match' = mAwayScore match + 1)) \<and>
              Goals (player_heap st' scorer) = Goals (player_heap st scorer) + 1 \<and>
              GoalsThisSeason (SeasonStats (player_heap st' scorer))
                = GoalsThisSeason (SeasonStats (player_heap st scorer)) + 1 \<and>
              (\<forall>q. q \<noteq> scorer \<longrightarrow>
                 Goals (player_heap st' q) = Goals (player_heap st q) \<and>
                 GoalsThisSeason (SeasonStats (player_heap st' q))
                   = GoalsThisSeason (SeasonStats (player_heap st q))) \<and>
              (case goalAssister st ball scorer of
                 None \<Rightarrow> \<forall>q. Assists (player_heap st' q) = Assists (player_heap st q)
               | Some assister \<Rightarrow>
                   assister \<noteq> scorer \<and>
                   map_of (players st) (bLastTouchID ball) = Some assister \<and>
                   pTeamID (player_heap st assister) = pTeamID (player_heap st scorer) \<and>
                   Assists (player_heap st' assister)
                     = Assists (player_heap st assister) + 1 \<and>
                   (\<forall>q. q \<noteq> assister \<longrightarrow>
                      Assists (player_heap st' q) = Assists (player_heap st q)))"
        apply (rule exI[of _ match1], rule exI[of _ st5])
        using res stored5 score credits by simp
      show ?thesis
        by (simp only: Some scorer option.case if_P[OF True] goal)
    qed
  qed
qed

text \<open>The goal of striker 18 in the match of the two squads, assisted by player 15.\<close>

lemma squad_ball: "ballPositions squadState 1 = Some squadBall"
  by (simp add: squadState_def)

lemma squad_keys:
  "list_all (\<lambda>(k, r). pID (player_heap squadState r) = k) (players squadState)"
  by code_simp

lemma squad_facts:
  "map_of (matches squadState) 1 = Some squadMatch"
  "map_of (players squadState) 18 = Some 18"
  "pTeamID (player_heap squadState 18) = 1"
  "pPosition (player_heap squadState 18) = PosST"
  "length (getPlayersFromTeam squadState 1) = 19"
  "length (getPlayersFromTeam squadState 2) = 19"
  "playerLocations squadState 1 = Some squadLocations"
  "goalAssister squadState squadBall 18 = Some 15"
  "Goals (player_heap squadState 18) = 0" "Goals (player_heap squadState 15) = 0"
  "Assists (player_heap squadState 18) = 0" "Assists (player_heap squadState 15) = 0"
  by code_simp+

lemma squad_scorer: "goalScorer True 1 squadState squadBall = Some 18"
  by (simp add: goalScorer_def squadBall_def squad_facts Let_def)

theorem goal_event_one_score_one_scorer_witness:
  "list_all (\<lambda>(k, r). pID (player_heap squadState r) = k) (players squadState) \<and>
   map_of (matches squadState) 1 = Some squadMatch \<and>
   ballPositions squadState 1 = Some squadBall \<and>
   map_of (players squadState) (bPossessorID squadBall) = Some 18 \<and>
   pTeamID (player_heap squadState 18) = tID (mHomeTeam squadMatch) \<and>
   length (getPlayersFromTeam squadState (tID (mHomeTeam squadMatch))) = 19 \<and>
   length (getPlayersFromTeam squadState (tID (mAwayTeam squadMatch))) = 19 \<and>
   playerLocations squadState 1 = Some squadLocations \<and>
   goalScorer True 1 squadState squadBall = Some 18 \<and>
   goalAssister squadState squadBall 18 = Some 15 \<and>
   (\<exists>match' st'.
      handleGoalEvent kickoff442 True 1 squadMatch squadState = Inr (match', st') \<and>
      map_of (matches st') 1 = Some match' \<and>
      mHomeScore match' = 1 \<and> mAwayScore match' = 0 \<and>
      Goals (player_heap st' 18) = 1 \<and> Goals (player_heap st' 15) = 0 \<and>
      Assists (player_heap st' 15) = 1 \<and> Assists (player_heap st' 18) = 0)"
proof -
  have keys: "\<forall>(k, r) \<in> set (players squadState). pID (player_heap squadState r) = k"
    using squad_keys by (simp add: list_all_iff)
  have teams: "tID (mHomeTeam squadMatch) = 1" "tID (mAwayTeam squadMatch) = 2"
    "mHomeScore squadMatch = 0" "mAwayScore squadMatch = 0"
    by (simp_all add: squadMatch_def premierTeam_def)
  have poss: "\<forall>ball r. ballPositions squadState 1 = Some ball \<longrightarrow>
                 map_of (players squadState) (bPossessorID ball) = Some r \<longrightarrow>
                 pTeamID (player_heap squadState r) = tID (mHomeTeam squadMatch) \<or>
                 pTeamID (player_heap squadState r) = tID (mAwayTeam squadMatch)"
    by (auto simp: squad_ball squadBall_def squad_facts teams)
  have possessor: "bPossessorID squadBall = 18" by (simp add: squadBall_def)
  have full: "11 \<le> length (getPlayersFromTeam squadState (tID (mHomeTeam squadMatch))) \<and>
              11 \<le> length (getPlayersFromTeam squadState (tID (mAwayTeam squadMatch))) \<and>
              playerLocations squadState 1 \<noteq> None"
    by (simp add: teams squad_facts)
  note goal = goal_event_one_score_one_scorer[OF keys squad_facts(1) poss, of kickoff442 True,
      unfolded squad_ball option.case squad_scorer if_P[OF full] squad_facts(8)]
  from goal obtain match' st' where
    run: "handleGoalEvent kickoff442 True 1 squadMatch squadState = Inr (match', st')" and
    stored': "map_of (matches st') 1 = Some match'" and
    score: "(pTeamID (player_heap squadState 18) = tID (mHomeTeam squadMatch) \<and>
             mHomeScore match' = mHomeScore squadMatch + 1 \<and>
             mAwayScore match' = mAwayScore squadMatch) \<or>
            (pTeamID (player_heap squadState 18) = tID (mAwayTeam squadMatch) \<and>
             mHomeScore match' = mHomeScore squadMatch \<and>
             mAwayScore match' = mAwayScore squadMatch + 1)" and
    scored: "Goals (player_heap st' 18) = Goals (player_heap squadState 18) + 1" and
    others: "\<forall>q. q \<noteq> 18 \<longrightarrow>
               Goals (player_heap st' q) = Goals (player_heap squadState q) \<and>
               GoalsThisSeason (SeasonStats (player_heap st' q))
                 = GoalsThisSeason (SeasonStats (player_heap squadState q))" and
    assisted: "Assists (player_heap st' 15) = Assists (player_heap squadState 15) + 1" and
    nobody: "\<forall>q. q \<noteq> 15 \<longrightarrow>
               Assists (player_heap st' q) = Assists (player_heap squadState q)"
    by blast
  have "mHomeScore match' = 1" "mAwayScore match' = 0"
    using score by (simp_all add: teams squad_facts)
  moreover have "Goals (player_heap st' 18) = 1" "Assists (player_heap st' 15) = 1"
    using scored assisted by (simp_all add: squad_facts)
  moreover have "Goals (player_heap st' 15) = 0" "Assists (player_heap st' 18) = 0"
    using others nobody by (simp_all add: squad_facts)
  ultimately have "\<exists>match' st'.
      handleGoalEvent kickoff442 True 1 squadMatch squadState = Inr (match', st') \<and>
      map_of (matches st') 1 = Some match' \<and>
      mHomeScore match' = 1 \<and> mAwayScore match' = 0 \<and>
      Goals (player_heap st' 18) = 1 \<and> Goals (player_heap st' 15) = 0 \<and>
      Assists (player_heap st' 15) = 1 \<and> Assists (player_heap st' 18) = 0"
    using run stored' by (intro exI[of _ match'] exI[of _ st']) simp
  with squad_keys squad_ball squad_scorer squad_facts teams possessor show ?thesis
    by simp
qed

subsection \<open>Red cards\<close>

text \<open>The two distance tests of the foul path, without the square root.\<close>

lemma sqrt_le_radius: "0 \<le> r \<Longrightarrow> sqrt x \<le> r \<longleftrightarrow> x \<le> r\<^sup>2"
  by (metis abs_of_nonneg real_sqrt_abs real_sqrt_le_iff)

lemma sqrt_less_radius: "0 \<le> r \<Longrightarrow> sqrt x < r \<longleftrightarrow> x < r\<^sup>2"
  by (metis abs_of_nonneg real_sqrt_abs real_sqrt_less_iff)

lemma near_action_squares:
  assumes "0 \<le> radius"
  shows "getPlayersNearAction st matchID ball radius =
     (case playerLocations st matchID of
        None \<Rightarrow> []
      | Some locations \<Rightarrow>
          foldl (\<lambda>nearPlayers (playerID, location).
                   case map_of (players st) playerID of
                     None \<Rightarrow> nearPlayers
                   | Some player \<Rightarrow>
                       if (lX location - bX ball)\<^sup>2 + (lY location - bY ball)\<^sup>2 \<le> radius\<^sup>2
                       then nearPlayers @ [player] else nearPlayers)
                [] locations)"
proof (cases "playerLocations st matchID")
  case None
  then show ?thesis by (simp add: getPlayersNearAction_def)
next
  case (Some locations)
  then show ?thesis
    by (simp add: getPlayersNearAction_def Let_def sqrt_le_radius[OF assms]
        cong: option.case_cong)
qed

lemma foul_context_squares:
  "determineFoulContext st ball match =
     \<lparr>IsInPenaltyArea =
        ((bX ball \<le> 18 \<and> bY ball \<ge> 20 \<and> bY ball \<le> 44) \<or>
         (bX ball \<ge> FieldWidth - 18 \<and> bY ball \<ge> 20 \<and> bY ball \<le> 44)),
      IsNearGoal = ((bX ball)\<^sup>2 + (bY ball - FieldHeight / 2)\<^sup>2 < 25\<^sup>2 \<or>
                    (bX ball - FieldWidth)\<^sup>2 + (bY ball - FieldHeight / 2)\<^sup>2 < 25\<^sup>2),
      IsCounterAttack = False,
      IsDangerousPlay = (bSpeed ball > 8.0 \<and> (bX ball < 30 \<or> bX ball > 70)),
      BallPossessorTeam =
        (if bPossessorID ball > 0 then
           (case map_of (players st) (bPossessorID ball) of
              None \<Rightarrow> 0
            | Some player \<Rightarrow> pTeamID (player_heap st player))
         else 0)\<rparr>"
  by (simp add: determineFoulContext_def Let_def min_less_iff_disj sqrt_less_radius)

text \<open>The foul in the match of the two squads: who is near the ball, the context, the
  fouler and the severity.\<close>

lemma squad_near: "getPlayersNearAction squadState 1 squadBall 8 = [18, 22, 23]"
  apply (subst near_action_squares)
   apply simp
  apply code_simp
  done

lemma squad_context:
  "determineFoulContext squadState squadBall squadMatch =
     \<lparr>IsInPenaltyArea = True, IsNearGoal = True, IsCounterAttack = False,
      IsDangerousPlay = False, BallPossessorTeam = 1\<rparr>"
  unfolding foul_context_squares by code_simp

lemma squad_fouler:
  "selectFouler (selectDraw redDraws) squadState [18, 22, 23] squadBall
     \<lparr>IsInPenaltyArea = True, IsNearGoal = True, IsCounterAttack = False,
      IsDangerousPlay = False, BallPossessorTeam = 1\<rparr> = Some 22"
  by code_simp

lemma squad_severity:
  "determineFoulSeverity redDraws (player_heap squadState 22) squadBall
     \<lparr>IsInPenaltyArea = True, IsNearGoal = True, IsCounterAttack = False,
      IsDangerousPlay = False, BallPossessorTeam = 1\<rparr> = ''red''"
  by code_simp

text \<open>The state after the booking of the red card on the foul path, and the state after
  the direct red card.\<close>

lemma foul_booked:
  "(case bookFoul 1 squadMatch 22 ''red'' squadState of
      Inl e \<Rightarrow> False
    | Inr st \<Rightarrow>
        RedCards (player_heap st 22) = 1 \<and>
        map_option AwayRedCards (matchStats st 1) = Some 1 \<and>
        isPlayerAvailable st 1 22 \<and>
        unavailablePlayers st 1 = [] \<and>
        22 \<in> set (getAvailablePlayersForMatch st 1) \<and>
        pTeamID (player_heap st 22) = 2 \<and>
        map_of (matches st) 1 = Some squadMatch \<and>
        length (getPlayersFromTeam st 1) = 19 \<and>
        length (getPlayersFromTeam st 2) = 19 \<and>
        playerLocations st 1 = Some squadLocations)"
  by code_simp

lemma sent_off_state:
  "(case handleCardEvent 17 True 1 squadMatch squadState of
      Inl e \<Rightarrow> False
    | Inr st \<Rightarrow>
        \<not> isPlayerAvailable st 1 18 \<and>
        unavailablePlayers st 1 =
          [\<lparr>aPlayerID = 18, aStatus = PlayerRedCard, aUnavailableFrom = 30,
            aReason = ''Direct red card''\<rparr>] \<and>
        18 \<notin> set (getAvailablePlayersForMatch st 1) \<and>
        ballPositions st 1 = Some squadBall \<and>
        map_of (players st) 18 = Some 18 \<and>
        pPosition (player_heap st 18) = PosST \<and>
        pTeamID (player_heap st 18) = 1 \<and>
        Goals (player_heap st 18) = 0 \<and>
        map_of (matches st) 1 = Some squadMatch \<and>
        length (getPlayersFromTeam st 1) = 19 \<and>
        length (getPlayersFromTeam st 2) = 19 \<and>
        playerLocations st 1 = Some squadLocations)"
  by code_simp

text \<open>Availability, the list of unavailable players and the card pool read the
  players, the stored matches and the availability map only.\<close>

lemma pool_frame:
  assumes "player_heap st' = player_heap st" "players st' = players st"
    "matches st' = matches st" "playerAvailability st' = playerAvailability st"
  shows "isPlayerAvailable st' m p = isPlayerAvailable st m p \<and>
         unavailablePlayers st' m = unavailablePlayers st m \<and>
         getAvailablePlayersForMatch st' m = getAvailablePlayersForMatch st m"
proof -
  have a: "\<And>q. isPlayerAvailable st' m q = isPlayerAvailable st m q"
    using assms by (simp add: isPlayerAvailable_def)
  have b: "\<And>k. getPlayerByID st' k = getPlayerByID st k"
    using assms by (simp add: getPlayerByID_def)
  have c: "\<And>t. getPlayersFromTeam st' t = getPlayersFromTeam st t"
    using assms by (simp add: getPlayersFromTeam_def)
  show ?thesis
    using assms
    by (simp add: a b c unavailablePlayers_def getAvailablePlayersForMatch_def Let_def
        cong: option.case_cong)
qed

lemma squad_foul_run:
  assumes "bookFoul 1 squadMatch 22 ''red'' squadState = Inr bk"
    and "pTeamID (player_heap bk 22) = 2"
  shows "handleFoulEvent repos redDraws 1 squadMatch squadState
           = setBallEvent repos 1 BallEventPenalty 11 (FieldHeight / 2) 0 bk"
proof -
  have xy: "bX squadBall = 85" "bY squadBall = 32"
    by (simp_all add: squadBall_def)
  show ?thesis
    by (simp add: handleFoulEvent_def squad_ball squad_near squad_context squad_fouler
        squad_severity applyFoulConsequences_def Let_def xy FieldWidth_def assms)
qed

text \<open>
  Claim C5. The claim is that a player who receives a red card, by whichever path, is
  listed as unavailable (status, minute, reason) and is left out of every later
  selection pool of the match. In the match of \<open>squadState\<close>, and whatever the
  repositioning does, it fails on both counts.

  First path, a foul judged ``red''. With the draws \<open>redDraws\<close>, \<open>handleFoulEvent\<close>
  finds the striker and the two centre-backs near the ball, selects centre-back 22 as the
  fouler, judges the foul in the penalty area ``red'' and awards the penalty.
  \<open>applyFoulConsequences\<close> counts the red card for the player and for his team, but
  never calls \<open>setPlayerUnavailable\<close>: afterwards the player is still available, the
  list of unavailable players is empty, and the pool of the next card event still
  contains him.

  Second path, the direct red card of \<open>handleCardEvent\<close> for striker 18: the player is
  listed with status \<open>red_card\<close>, minute 30 and the reason ``Direct red card'', and the
  card pool no longer contains him; but \<open>handleGoalEvent\<close> does not look at
  availability, so with the ball still at his feet the sent-off player is chosen as the
  scorer, the home score goes up and he is credited with the goal.
\<close>

theorem red_card_not_enforced:
  "(\<exists>st. handleFoulEvent repos redDraws 1 squadMatch squadState = Inr st \<and>
         RedCards (player_heap st 22) = 1 \<and>
         map_option AwayRedCards (matchStats st 1) = Some 1 \<and>
         isPlayerAvailable st 1 22 \<and>
         unavailablePlayers st 1 = [] \<and>
         22 \<in> set (getAvailablePlayersForMatch st 1)) \<and>
   (\<exists>st. handleCardEvent 17 True 1 squadMatch squadState = Inr st \<and>
         \<not> isPlayerAvailable st 1 18 \<and>
         unavailablePlayers st 1 =
           [\<lparr>aPlayerID = 18, aStatus = PlayerRedCard, aUnavailableFrom = 30,
             aReason = ''Direct red card''\<rparr>] \<and>
         18 \<notin> set (getAvailablePlayersForMatch st 1) \<and>
         ballPositions st 1 = Some squadBall \<and>
         goalScorer True 1 st squadBall = Some 18 \<and>
         (\<exists>match' st'. handleGoalEvent repos True 1 squadMatch st = Inr (match', st') \<and>
                        mHomeScore match' = 1 \<and>
                        Goals (player_heap st' 18) = 1))"
proof
  obtain bk where bk: "bookFoul 1 squadMatch 22 ''red'' squadState = Inr bk"
    using foul_booked by (cases "bookFoul 1 squadMatch 22 ''red'' squadState") simp_all
  with foul_booked have
    f: "RedCards (player_heap bk 22) = 1" "map_option AwayRedCards (matchStats bk 1) = Some 1"
       "isPlayerAvailable bk 1 22" "unavailablePlayers bk 1 = []"
       "22 \<in> set (getAvailablePlayersForMatch bk 1)" and
    t: "pTeamID (player_heap bk 22) = 2" and
    m: "map_of (matches bk) 1 = Some squadMatch" and
    r: "length (getPlayersFromTeam bk 1) = 19" "length (getPlayersFromTeam bk 2) = 19"
       "playerLocations bk 1 = Some squadLocations"
    by simp_all
  have "\<exists>st. setBallEvent repos 1 BallEventPenalty 11 (FieldHeight / 2) 0 bk = Inr st"
    apply (rule setBallEvent_returns[OF m])
    using r by (simp_all add: squadMatch_def premierTeam_def)
  then obtain st where
    set: "setBallEvent repos 1 BallEventPenalty 11 (FieldHeight / 2) 0 bk = Inr st"
    by blast
  have run: "handleFoulEvent repos redDraws 1 squadMatch squadState = Inr st"
    unfolding squad_foul_run[OF bk t] by (rule set)
  from setBallEvent_frame[OF set] have
    fr: "player_heap st = player_heap bk" "players st = players bk"
        "matches st = matches bk" "matchStats st = matchStats bk"
        "playerAvailability st = playerAvailability bk"
    by simp_all
  from pool_frame[OF fr(1) fr(2) fr(3) fr(5)] f fr run
  show "\<exists>st. handleFoulEvent repos redDraws 1 squadMatch squadState = Inr st \<and>
         RedCards (player_heap st 22) = 1 \<and>
         map_option AwayRedCards (matchStats st 1) = Some 1 \<and>
         isPlayerAvailable st 1 22 \<and>
         unavailablePlayers st 1 = [] \<and>
         22 \<in> set (getAvailablePlayersForMatch st 1)"
    by (intro exI[of _ st]) simp
next
  obtain so where so: "handleCardEvent 17 True 1 squadMatch squadState = Inr so"
    using sent_off_state by (cases "handleCardEvent 17 True 1 squadMatch squadState") simp_all
  with sent_off_state have
    f: "\<not> isPlayerAvailable so 1 18"
       "unavailablePlayers so 1 =
          [\<lparr>aPlayerID = 18, aStatus = PlayerRedCard, aUnavailableFrom = 30,
            aReason = ''Direct red card''\<rparr>]"
       "18 \<notin> set (getAvailablePlayersForMatch so 1)" and
    b: "ballPositions so 1 = Some squadBall" and
    p: "map_of (players so) 18 = Some 18" "pPosition (player_heap so 18) = PosST" and
    t: "pTeamID (player_heap so 18) = 1" and
    g: "Goals (player_heap so 18) = 0" and
    m: "map_of (matches so) 1 = Some squadMatch" and
    r: "length (getPlayersFromTeam so 1) = 19" "length (getPlayersFromTeam so 2) = 19"
       "playerLocations so 1 = Some squadLocations"
    by simp_all
  have sc: "goalScorer True 1 so squadBall = Some 18"
    by (simp add: goalScorer_def squadBall_def p Let_def)
  have "\<exists>st5. handleGoalEvent repos True 1 squadMatch so
                  = Inr (fst (bookGoal 1 squadMatch squadBall 18 so), st5) \<and>
               player_heap st5 = player_heap (snd (bookGoal 1 squadMatch squadBall 18 so)) \<and>
               matches st5 = matches (snd (bookGoal 1 squadMatch squadBall 18 so))"
    apply (rule goal_event_returns[OF b sc m])
    using r by (simp_all add: squadMatch_def premierTeam_def)
  then obtain st5 where
    res: "handleGoalEvent repos True 1 squadMatch so
            = Inr (fst (bookGoal 1 squadMatch squadBall 18 so), st5)" and
    heap: "player_heap st5 = player_heap (snd (bookGoal 1 squadMatch squadBall 18 so))"
    by blast
  have score: "mHomeScore (fst (bookGoal 1 squadMatch squadBall 18 so)) = 1"
    by (simp add: bookGoal_match t squadMatch_def premierTeam_def)
  have goals: "Goals (player_heap st5 18) = 1"
    unfolding heap bookGoal_heap
    by (simp add: g creditGoal_def creditAssist_def split: option.splits)
  from so f b sc res score goals
  show "\<exists>st. handleCardEvent 17 True 1 squadMatch squadState = Inr st \<and>
         \<not> isPlayerAvailable st 1 18 \<and>
         unavailablePlayers st 1 =
           [\<lparr>aPlayerID = 18, aStatus = PlayerRedCard, aUnavailableFrom = 30,
             aReason = ''Direct red card''\<rparr>] \<and>
         18 \<notin> set (getAvailablePlayersForMatch st 1) \<and>
         ballPositions st 1 = Some squadBall \<and>
         goalScorer True 1 st squadBall = Some 18 \<and>
         (\<exists>match' st'. handleGoalEvent repos True 1 squadMatch st = Inr (match', st') \<and>
                        mHomeScore match' = 1 \<and>
                        Goals (player_heap st' 18) = 1)"
    by (intro exI[of _ so]) simp
qed

subsection \<open>End of season\<close>

lemma season_ends_iff_all_played:
  "shouldEndSeason st \<longleftrightarrow>
     (\<forall>league \<in> set leagueOrder. \<forall>s \<in> set (scheduleOf st league). sIsPlayed s)"
proof -
  have "\<And>league. (case seasonSchedules st league of None \<Rightarrow> True
                    | Some schedules \<Rightarrow> list_all sIsPlayed schedules)
                 \<longleftrightarrow> (\<forall>s \<in> set (scheduleOf st league). sIsPlayed s)"
    by (auto simp: scheduleOf_def list_all_iff split: option.splits)
  then show ?thesis
    by (simp add: shouldEndSeason_def list_all_iff)
qed

lemma sched_init: "seasonSchedules (initializeLeagueTables st) = seasonSchedules st"
  by (simp add: initializeLeagueTables_def leagueOrder_def Let_def)

lemma season_init: "currentSeason (initializeLeagueTables st) = currentSeason st"
  by (simp add: initializeLeagueTables_def leagueOrder_def Let_def)

lemma reset_keeps:
  "seasonSchedules (foldl (\<lambda>st1 player. st1\<lparr>player_heap := (player_heap st1)
                       (player := resetPlayer (player_heap st1 player))\<rparr>) st ps) = seasonSchedules st \<and>
   currentSeason (foldl (\<lambda>st1 player. st1\<lparr>player_heap := (player_heap st1)
                       (player := resetPlayer (player_heap st1 player))\<rparr>) st ps) = currentSeason st"
  by (induction ps arbitrary: st) simp_all

lemma season_transition:
  assumes "shouldEndSeason st" "seasonCheck st = Inr st'"
  shows "currentSeason st' = currentSeason st + 2 \<and> seasonSchedules st' = seasonSchedules st"
  using assms
  by (auto simp: seasonCheck_def endSeason_def startNewSeason_def resetForNewSeason_def Let_def
        sched_init season_init reset_keeps split: sum.splits option.splits prod.splits)

lemma bestPlayer_Some: "players st \<noteq> [] \<Longrightarrow> \<exists>p. bestPlayer st better val start = Some p"
  by (cases "players st") (auto simp: bestPlayer_def split: option.splits)

lemma awards_found:
  assumes "players st \<noteq> []"
  shows "\<exists>p. findTopScorer st = Some p" "\<exists>p. findTopAssists st = Some p"
    "\<exists>p. findMostFouls st = Some p" "\<exists>p. findPlayerOfSeason st = Some p"
  unfolding findTopScorer_def findTopAssists_def findMostFouls_def findPlayerOfSeason_def
  by (rule bestPlayer_Some[OF assms])+

lemma endSeason_succeeds:
  assumes "players st \<noteq> []" shows "\<exists>st1. endSeason st = Inr st1"
proof -
  from awards_found[OF assms] obtain a b c d where
    "findTopScorer st = Some a" "findTopAssists st = Some b"
    "findMostFouls st = Some c" "findPlayerOfSeason st = Some d"
    by blast
  then show ?thesis by (simp add: endSeason_def Let_def)
qed

lemma shouldEndSeason_cong:
  "seasonSchedules st' = seasonSchedules st \<Longrightarrow> shouldEndSeason st' = shouldEndSeason st"
  by (simp add: shouldEndSeason_def)

lemma history_init: "seasonHistory (initializeLeagueTables st) = seasonHistory st"
  by (simp add: initializeLeagueTables_def leagueOrder_def Let_def)

lemma heap_init: "player_heap (initializeLeagueTables st) = player_heap st"
  by (simp add: initializeLeagueTables_def leagueOrder_def Let_def)

lemma reset_history:
  "seasonHistory (foldl (\<lambda>st1 player. st1\<lparr>player_heap := (player_heap st1)
                       (player := resetPlayer (player_heap st1 player))\<rparr>) st ps) = seasonHistory st"
  by (induction ps arbitrary: st) simp_all

lemma reset_season_stats:
  assumes "r \<in> set ps \<or> GoalsThisSeason (SeasonStats (player_heap st r)) = 0"
  shows "GoalsThisSeason (SeasonStats (player_heap
           (foldl (\<lambda>st1 player. st1\<lparr>player_heap := (player_heap st1)
                       (player := resetPlayer (player_heap st1 player))\<rparr>) st ps) r)) = 0"
  using assms
proof (induction ps arbitrary: st)
  case Nil
  then show ?case by simp
next
  case (Cons p ps)
  show ?case
    unfolding foldl_Cons
    by (rule Cons.IH) (use Cons.prems in \<open>auto simp: resetPlayer_def\<close>)
qed

lemma season_end_history_and_reset:
  assumes "shouldEndSeason st" "seasonCheck st = Inr st'"
  shows "(\<exists>r. hSeason r = currentSeason st \<and>
              seasonHistory st' = (if length (seasonHistory st @ [r]) > MaxSeasonHistory
                                   then tl (seasonHistory st @ [r]) else seasonHistory st @ [r])) \<and>
         (\<forall>r \<in> set (map snd (players st)). GoalsThisSeason (SeasonStats (player_heap st' r)) = 0)"
proof -
  from assms obtain a b c d where
    aw: "findTopScorer st = Some a" "findTopAssists st = Some b"
        "findMostFouls st = Some c" "findPlayerOfSeason st = Some d"
    by (auto simp: seasonCheck_def endSeason_def Let_def split: sum.splits option.splits)
  define r where "r = \<lparr>hSeason = currentSeason st, hTopScorer = player_heap st a,
     hTopAssists = player_heap st b, hMostFouls = player_heap st c,
     hPlayerOfSeason = player_heap st d, hChampion = calculateSeasonWinner st,
     hTotalGoals = calculateTotalSeasonGoals st, hTotalMatches = SeasonMatches\<rparr>"
  define H where "H = (if length (seasonHistory st @ [r]) > MaxSeasonHistory
                       then tl (seasonHistory st @ [r]) else seasonHistory st @ [r])"
  define st1 where "st1 = resetForNewSeason (st\<lparr>seasonHistory := H\<rparr>)"
  have st': "st' = startNewSeason (st1\<lparr>currentSeason := currentSeason st1 + 1, currentMatchweek := 1\<rparr>)"
    using assms by (auto simp: seasonCheck_def endSeason_def Let_def aw st1_def H_def r_def)
  have h: "seasonHistory st' = H"
    by (simp add: st' startNewSeason_def st1_def resetForNewSeason_def history_init reset_history)
  have "hSeason r = currentSeason st" by (simp add: r_def)
  with h have first: "\<exists>r. hSeason r = currentSeason st \<and>
              seasonHistory st' = (if length (seasonHistory st @ [r]) > MaxSeasonHistory
                                   then tl (seasonHistory st @ [r]) else seasonHistory st @ [r])"
    unfolding H_def by blast
  have "\<forall>q \<in> set (map snd (players st)). GoalsThisSeason (SeasonStats (player_heap st' q)) = 0"
  proof
    fix q assume "q \<in> set (map snd (players st))"
    then have "q \<in> set (map snd (players (st\<lparr>seasonHistory := H\<rparr>)))" by simp
    then show "GoalsThisSeason (SeasonStats (player_heap st' q)) = 0"
      by (simp add: st' startNewSeason_def st1_def resetForNewSeason_def heap_init
          reset_season_stats del: set_map)
  qed
  with first show ?thesis by blast
qed

lemma season_over: "shouldEndSeason seasonOverState"
  by code_simp

text \<open>
  Claim C4. The claim is that the season ends exactly when every fixture is played
  (lemma \<open>season_ends_iff_all_played\<close>: that part holds), and that the end-of-season
  processing appends a history record, resets the season statistics of the players,
  regenerates unplayed fixtures for all leagues and advances the season counter by one.
  In \<open>seasonOverState\<close> (season 1, both fixtures played) the check of \<open>seasonManager\<close>
  does append the record of season 1 and does reset the season goals of the striker, but
  it leaves the season counter at 3, not 2 (\<open>endSeason\<close> and \<open>startNewSeason\<close> each
  increment it), and it leaves the schedule as it was: no fixture is regenerated, every
  fixture is still marked played, and \<open>shouldEndSeason\<close> holds again at once. Lemma
  \<open>season_transition\<close> shows the same for every state.
\<close>

theorem season_end_keeps_fixtures_and_skips_a_season:
  "shouldEndSeason seasonOverState \<and>
   (case seasonCheck seasonOverState of
      Inl e \<Rightarrow> False
    | Inr st \<Rightarrow>
        map hSeason (seasonHistory st) = [1] \<and>
        GoalsThisSeason (SeasonStats (player_heap st 11)) = 0 \<and>
        currentSeason seasonOverState = 1 \<and> currentSeason st = 3 \<and>
        seasonSchedules st = seasonSchedules seasonOverState \<and>
        map sIsPlayed (scheduleOf st LeaguePremier) = [True, True] \<and>
        shouldEndSeason st)"
proof -
  have "players seasonOverState \<noteq> []" by code_simp
  from endSeason_succeeds[OF this] obtain st where st: "seasonCheck seasonOverState = Inr st"
    using season_over by (auto simp: seasonCheck_def)
  from season_transition[OF season_over st] have
    s: "currentSeason st = currentSeason seasonOverState + 2" and
    f: "seasonSchedules st = seasonSchedules seasonOverState" by simp_all
  have one: "currentSeason seasonOverState = 1" by code_simp
  have "map sIsPlayed (scheduleOf seasonOverState LeaguePremier) = [True, True]" by code_simp
  then have played: "map sIsPlayed (scheduleOf st LeaguePremier) = [True, True]"
    by (simp add: scheduleOf_def f)
  have h0: "seasonHistory seasonOverState = []" by code_simp
  have p11: "11 \<in> set (map snd (players seasonOverState))" by code_simp
  from season_end_history_and_reset[OF season_over st] h0 one p11 have
    hist: "map hSeason (seasonHistory st) = [1]" and
    reset: "GoalsThisSeason (SeasonStats (player_heap st 11)) = 0"
    by (auto simp: MaxSeasonHistory_def)
  show ?thesis
    using season_over st s f one played hist reset shouldEndSeason_cong[OF f] by simp
qed

subsection \<open>League table order\<close>

lemma not_worse_refl: "\<not> worse a a" by (simp add: worse_def)
lemma not_worse_trans: "\<not> worse a b \<Longrightarrow> \<not> worse b c \<Longrightarrow> \<not> worse a c"
  by (auto simp: worse_def)

lemma length_bubbleStep [simp]: "length (bubbleStep t j) = length t"
  by (simp add: bubbleStep_def)

lemma bubbleStep_other: "k \<noteq> j \<Longrightarrow> k \<noteq> Suc j \<Longrightarrow> bubbleStep t j ! k = t ! k"
  by (simp add: bubbleStep_def)

lemma bubbleStep_ordered: "Suc j < length t \<Longrightarrow> \<not> worse (bubbleStep t j ! j) (bubbleStep t j ! Suc j)"
  by (auto simp: bubbleStep_def worse_def nth_list_update)

lemma bubbleStep_pair:
  "Suc j < length t \<Longrightarrow>
     (bubbleStep t j ! j = t ! j \<and> bubbleStep t j ! Suc j = t ! Suc j) \<or>
     (bubbleStep t j ! j = t ! Suc j \<and> bubbleStep t j ! Suc j = t ! j)"
  by (auto simp: bubbleStep_def nth_list_update)

lemma length_inner [simp]: "length (foldl bubbleStep t js) = length t"
  by (induction js arbitrary: t) simp_all

lemma inner_pass:
  assumes "m < length t"
  shows "(\<forall>k \<le> m. \<not> worse (foldl bubbleStep t [0..<m] ! k) (foldl bubbleStep t [0..<m] ! m)) \<and>
         (\<forall>k. m < k \<longrightarrow> foldl bubbleStep t [0..<m] ! k = t ! k) \<and>
         (\<forall>k \<le> m. \<exists>k' \<le> m. foldl bubbleStep t [0..<m] ! k = t ! k')"
  using assms
proof (induction m)
  case 0
  then show ?case by (simp add: not_worse_refl)
next
  case (Suc m)
  define u where "u = foldl bubbleStep t [0..<m]"
  define u' where "u' = bubbleStep u m"
  have lu: "length u = length t" by (simp add: u_def)
  from Suc have ih1: "\<forall>k \<le> m. \<not> worse (u ! k) (u ! m)"
    and ih2: "\<forall>k. m < k \<longrightarrow> u ! k = t ! k"
    and ih3: "\<forall>k \<le> m. \<exists>k' \<le> m. u ! k = t ! k'"
    by (simp_all add: u_def)
  have eq: "foldl bubbleStep t [0..<Suc m] = u'" by (simp add: u_def u'_def)
  have sm: "Suc m < length u" using Suc.prems lu by simp
  note ord = bubbleStep_ordered[OF sm, folded u'_def]
  note pair = bubbleStep_pair[OF sm, folded u'_def]
  have oth: "\<And>k. k \<noteq> m \<Longrightarrow> k \<noteq> Suc m \<Longrightarrow> u' ! k = u ! k"
    unfolding u'_def by (rule bubbleStep_other)
  have a: "\<forall>k \<le> Suc m. \<not> worse (u' ! k) (u' ! Suc m)"
  proof (intro allI impI)
    fix k assume k: "k \<le> Suc m"
    consider "k = Suc m" | "k = m" | "k < m" using k by linarith
    then show "\<not> worse (u' ! k) (u' ! Suc m)"
    proof cases
      case 1 then show ?thesis by (simp add: not_worse_refl)
    next
      case 2 then show ?thesis using ord by simp
    next
      case 3
      then have k1: "u' ! k = u ! k" using oth by simp
      have km: "\<not> worse (u ! k) (u ! m)" using ih1 3 by simp
      from pair show ?thesis
      proof
        assume p: "u' ! m = u ! m \<and> u' ! Suc m = u ! Suc m"
        with ord have "\<not> worse (u ! m) (u ! Suc m)" by simp
        with km have "\<not> worse (u ! k) (u ! Suc m)" by (rule not_worse_trans)
        with k1 p show ?thesis by simp
      next
        assume p: "u' ! m = u ! Suc m \<and> u' ! Suc m = u ! m"
        with k1 km show ?thesis by simp
      qed
    qed
  qed
  have b: "\<forall>k. Suc m < k \<longrightarrow> u' ! k = t ! k"
    using oth ih2 by simp
  have c: "\<forall>k \<le> Suc m. \<exists>k' \<le> Suc m. u' ! k = t ! k'"
  proof (intro allI impI)
    fix k assume k: "k \<le> Suc m"
    have um: "\<exists>k' \<le> Suc m. u ! m = t ! k'" using ih3 by (meson le_SucI order_refl)
    have usm: "\<exists>k' \<le> Suc m. u ! Suc m = t ! k'" using ih2 by auto
    consider "k = Suc m" | "k = m" | "k < m" using k by linarith
    then show "\<exists>k' \<le> Suc m. u' ! k = t ! k'"
    proof cases
      case 1 then show ?thesis using pair um usm by auto
    next
      case 2 then show ?thesis using pair um usm by auto
    next
      case 3
      then have "u' ! k = u ! k" using oth by simp
      moreover from ih3 3 obtain k' where "k' \<le> m" "u ! k = t ! k'" by (meson less_imp_le)
      ultimately show ?thesis by (metis le_SucI)
    qed
  qed
  show ?case unfolding eq using a b c by blast
qed

lemma length_bubblePass [simp]: "length (bubblePass t i) = length t"
  by (simp add: bubblePass_def)

lemma length_outer [simp]: "length (foldl bubblePass t is) = length t"
  by (induction "is" arbitrary: t) simp_all

lemma outer_passes:
  assumes "i \<le> length t - 1"
  shows "\<forall>a b. a < b \<and> length t - i \<le> b \<and> b < length t \<longrightarrow>
           \<not> worse (foldl bubblePass t [0..<i] ! a) (foldl bubblePass t [0..<i] ! b)"
  using assms
proof (induction i)
  case 0
  then show ?case by auto
next
  case (Suc i)
  define n where "n = length t"
  define v where "v = foldl bubblePass t [0..<i]"
  define m where "m = n - i - 1"
  define v' where "v' = foldl bubbleStep v [0..<m]"
  have lv: "length v = n" by (simp add: v_def n_def)
  have eq: "foldl bubblePass t [0..<Suc i] = v'"
    by (simp add: v_def v'_def bubblePass_def m_def n_def)
  from Suc.prems have i: "Suc i < n" "m < n" "n - Suc i = m" "n - i = Suc m"
    by (simp_all add: n_def m_def)
  from Suc have ih: "\<forall>a b. a < b \<and> n - i \<le> b \<and> b < n \<longrightarrow> \<not> worse (v ! a) (v ! b)"
    by (simp add: v_def n_def)
  from i lv have "m < length v" by simp
  from inner_pass[OF this, folded v'_def] have
    p1: "\<forall>k \<le> m. \<not> worse (v' ! k) (v' ! m)" and
    p2: "\<forall>k. m < k \<longrightarrow> v' ! k = v ! k" and
    p3: "\<forall>k \<le> m. \<exists>k' \<le> m. v' ! k = v ! k'"
    by blast+
  have "\<forall>a b. a < b \<and> m \<le> b \<and> b < n \<longrightarrow> \<not> worse (v' ! a) (v' ! b)"
  proof (intro allI impI)
    fix a b assume ab: "a < b \<and> m \<le> b \<and> b < n"
    show "\<not> worse (v' ! a) (v' ! b)"
    proof (cases "b = m")
      case True
      with ab p1 show ?thesis by simp
    next
      case False
      with ab have b: "m < b" "Suc m \<le> b" by simp_all
      then have vb: "v' ! b = v ! b" using p2 by simp
      show ?thesis
      proof (cases "a \<le> m")
        case True
        with p3 obtain a' where a': "a' \<le> m" "v' ! a = v ! a'" by blast
        with b ab ih i have "\<not> worse (v ! a') (v ! b)" by simp
        with a' vb show ?thesis by simp
      next
        case False
        then have "v' ! a = v ! a" using p2 by simp
        moreover from ab b ih i have "\<not> worse (v ! a) (v ! b)" by simp
        ultimately show ?thesis using vb by simp
      qed
    qed
  qed
  then show ?case unfolding eq n_def[symmetric] i(3) .
qed

lemma bubble_sorted:
  "sorted_wrt (\<lambda>a b. \<not> worse a b) (foldl bubblePass t [0..<length t - 1])"
proof -
  have "\<forall>a b. a < b \<and> b < length t \<longrightarrow>
          \<not> worse (foldl bubblePass t [0..<length t - 1] ! a) (foldl bubblePass t [0..<length t - 1] ! b)"
    using outer_passes[of "length t - 1" t] by auto
  then show ?thesis by (simp add: sorted_wrt_iff_nth_less)
qed

lemma sortLeagueTable_nth:
  assumes "i < length t"
  shows "sortLeagueTable t ! i = (foldl bubblePass t [0..<length t - 1] ! i)\<lparr>Position := int i + 1\<rparr>"
  using assms by (simp add: sortLeagueTable_def Let_def nth_enumerate_eq)

lemma length_sortLeagueTable [simp]: "length (sortLeagueTable t) = length t"
  by (simp add: sortLeagueTable_def Let_def)

lemma not_worse_iff:
  "\<not> worse a b \<longleftrightarrow> Points a > Points b \<or> (Points a = Points b \<and> GoalDiff a \<ge> GoalDiff b)"
  by (auto simp: worse_def)

lemma sortLeagueTable_sorted:
  "sorted_wrt (\<lambda>a b. Points a > Points b \<or> (Points a = Points b \<and> GoalDiff a \<ge> GoalDiff b))
     (sortLeagueTable t) \<and>
   (\<forall>i < length (sortLeagueTable t). Position (sortLeagueTable t ! i) = int i + 1)"
proof -
  define v where "v = foldl bubblePass t [0..<length t - 1]"
  have s: "\<And>a b. a < b \<Longrightarrow> b < length t \<Longrightarrow> \<not> worse (v ! a) (v ! b)"
    using bubble_sorted[of t] by (simp add: sorted_wrt_iff_nth_less v_def)
  have n: "\<And>i. i < length t \<Longrightarrow> sortLeagueTable t ! i = (v ! i)\<lparr>Position := int i + 1\<rparr>"
    unfolding v_def by (rule sortLeagueTable_nth)
  have "\<And>a b. a < b \<Longrightarrow> b < length t \<Longrightarrow>
          Points (sortLeagueTable t ! a) > Points (sortLeagueTable t ! b) \<or>
          (Points (sortLeagueTable t ! a) = Points (sortLeagueTable t ! b) \<and>
           GoalDiff (sortLeagueTable t ! a) \<ge> GoalDiff (sortLeagueTable t ! b))"
  proof -
    fix a b assume ab: "a < b" "b < length t"
    then have "a < length t" by simp
    with ab n s[OF ab] show "Points (sortLeagueTable t ! a) > Points (sortLeagueTable t ! b) \<or>
          (Points (sortLeagueTable t ! a) = Points (sortLeagueTable t ! b) \<and>
           GoalDiff (sortLeagueTable t ! a) \<ge> GoalDiff (sortLeagueTable t ! b))"
      by (simp add: not_worse_iff)
  qed
  then have sorted: "sorted_wrt (\<lambda>a b. Points a > Points b \<or>
       (Points a = Points b \<and> GoalDiff a \<ge> GoalDiff b)) (sortLeagueTable t)"
    by (simp add: sorted_wrt_iff_nth_less)
  have "\<forall>i < length (sortLeagueTable t). Position (sortLeagueTable t ! i) = int i + 1"
    using n by simp
  with sorted show ?thesis by blast
qed


text \<open>
  Claim C10. \<open>updateTeamStats\<close> returns the state unchanged when the team is unknown.
  Otherwise every league table of the resulting state is in non-increasing order of
  points, rows with equal points are in non-increasing order of goal difference, and the
  position of each row is its index plus one.
\<close>

theorem league_tables_sorted_after_update:
  "(map_of (teams st) teamID = None \<longrightarrow>
      updateTeamStats teamID points wins draws losses match st = st) \<and>
   (map_of (teams st) teamID \<noteq> None \<longrightarrow>
      (\<forall>league table.
         leagueTables (updateTeamStats teamID points wins draws losses match st) league = Some table \<longrightarrow>
         sorted_wrt (\<lambda>a b. Points a > Points b \<or> (Points a = Points b \<and> GoalDiff a \<ge> GoalDiff b))
           table \<and>
         (\<forall>i < length table. Position (table ! i) = int i + 1)))"
proof (cases "map_of (teams st) teamID")
  case None
  then show ?thesis by (simp add: updateTeamStats_def)
next
  case (Some team)
  have "sorted_wrt (\<lambda>a b. Points a > Points b \<or> (Points a = Points b \<and> GoalDiff a \<ge> GoalDiff b))
           table \<and>
         (\<forall>i < length table. Position (table ! i) = int i + 1)"
    if lt: "leagueTables (updateTeamStats teamID points wins draws losses match st) league = Some table"
    for league table
  proof -
    from lt Some obtain t where "table = sortLeagueTable t"
      by (auto simp: updateTeamStats_def Let_def)
    then show ?thesis using sortLeagueTable_sorted[of t] by simp
  qed
  with Some show ?thesis by simp
qed

lemma tableState_result:
  "map_option (map (\<lambda>r. (tID (Team r), Points r, GoalDiff r, Position r)))
     (leagueTables (updateTeamStats 3 3 1 0 0 tableMatch tableState) LeaguePremier)
   = Some [(3, 3, 4, 1), (1, 3, 1, 2), (2, 3, 0, 3)]"
  by code_simp

theorem league_tables_sorted_after_update_witness:
  "map_of (teams tableState) 99 = None \<and>
   updateTeamStats 99 3 1 0 0 tableMatch tableState = tableState \<and>
   map_of (teams tableState) 3 \<noteq> None \<and>
   (\<exists>table. leagueTables (updateTeamStats 3 3 1 0 0 tableMatch tableState) LeaguePremier = Some table \<and>
      map (\<lambda>r. (tID (Team r), Points r, GoalDiff r, Position r)) table
        = [(3, 3, 4, 1), (1, 3, 1, 2), (2, 3, 0, 3)] \<and>
      sorted_wrt (\<lambda>a b. Points a > Points b \<or> (Points a = Points b \<and> GoalDiff a \<ge> GoalDiff b))
        table \<and>
      (\<forall>i < length table. Position (table ! i) = int i + 1))"
proof -
  have none: "map_of (teams tableState) 99 = None" by code_simp
  have some: "map_of (teams tableState) 3 \<noteq> None" by code_simp
  from tableState_result obtain table where
    t: "leagueTables (updateTeamStats 3 3 1 0 0 tableMatch tableState) LeaguePremier = Some table"
    and v: "map (\<lambda>r. (tID (Team r), Points r, GoalDiff r, Position r)) table
              = [(3, 3, 4, 1), (1, 3, 1, 2), (2, 3, 0, 3)]"
    by auto
  have unchanged: "updateTeamStats 99 3 1 0 0 tableMatch tableState = tableState"
    by (rule league_tables_sorted_after_update
          [of tableState 99 3 1 0 0 tableMatch, THEN conjunct1, THEN mp, OF none])
  note sorted = league_tables_sorted_after_update
          [of tableState 3 3 1 0 0 tableMatch, THEN conjunct2, THEN mp, OF some,
           THEN spec, THEN spec, THEN mp, OF t]
  show ?thesis
    apply (rule conjI, rule none)
    apply (rule conjI, rule unchanged)
    apply (rule conjI, rule some)
    apply (rule exI[of _ table])
    apply (rule conjI, rule t)
    apply (rule conjI, rule v)
    apply (rule sorted)
    done
qed

end
